theory Spec2Isabelle
  imports Complex_Main "HOL-Library.Log_Nat"
begin

section \<open>Conventions of the embedding\<close>

text \<open>
  The stores of the application are zustand stores: a record of state fields and a set of
  actions that read the state with \<open>get()\<close> and replace fields with \<open>set(...)\<close>. Each store
  is a \<^theory_text>\<open>record\<close> here, and each action is a function from the state to the new state.
  \<open>Date.now()\<close> is an argument \<open>now\<close> of every action that reads the clock. JavaScript
  numbers that hold times, levels, distances and strengths are real numbers (there is no
  NaN); row ids and path positions are integers. The arithmetic of the stores is exact,
  except in the timeline's \<open>getProgress\<close> and \<open>setProgress\<close>, where every operation is
  rounded to a double as JavaScript does it: there the result depends on the rounding.
\<close>


section \<open>The activation store (activationStore)\<close>

record NodeActivation =
  thoughtId :: string
  level :: real
  lastActivatedAt :: real
  decayStartsAt :: real

record ActivationState =
  activations :: "string \<rightharpoonup> NodeActivation"
  glowDuration :: real
  decayDuration :: real
  proximityBoost :: real

text \<open>The state the store is created with.\<close>

definition initialActivationState :: ActivationState where
  "initialActivationState =
     \<lparr>activations = Map.empty, glowDuration = 30000, decayDuration = 60000,
      proximityBoost = 3 / 10\<rparr>"

definition activateNode :: "real \<Rightarrow> string \<Rightarrow> real \<Rightarrow> ActivationState \<Rightarrow> ActivationState" where
  "activateNode now tid intensity s =
     s\<lparr>activations := (activations s)(tid \<mapsto>
         \<lparr>thoughtId = tid, level = min 1 intensity, lastActivatedAt = now,
          decayStartsAt = now + glowDuration s\<rparr>)\<rparr>"

text \<open>
  \<open>activateNodes\<close>: the \<open>forEach\<close> over the ids with its index; every record is computed from
  the \<open>now\<close> and the \<open>glowDuration\<close> read once before the loop.
\<close>

fun activateNodes_loop ::
  "real \<Rightarrow> real \<Rightarrow> real \<Rightarrow> nat \<Rightarrow> string list \<Rightarrow> (string \<rightharpoonup> NodeActivation)
     \<Rightarrow> (string \<rightharpoonup> NodeActivation)" where
  "activateNodes_loop now glow intensity index [] m = m"
| "activateNodes_loop now glow intensity index (tid # tids) m =
     activateNodes_loop now glow intensity (Suc index) tids
       (m(tid \<mapsto>
          \<lparr>thoughtId = tid, level = min 1 intensity,
           lastActivatedAt = now + real index * 200,
           decayStartsAt = now + real index * 200 + glow\<rparr>))"

definition activateNodes ::
  "real \<Rightarrow> string list \<Rightarrow> real \<Rightarrow> ActivationState \<Rightarrow> ActivationState" where
  "activateNodes now tids intensity s =
     s\<lparr>activations :=
         activateNodes_loop now (glowDuration s) intensity 0 tids (activations s)\<rparr>"



definition getActivation :: "real \<Rightarrow> string \<Rightarrow> ActivationState \<Rightarrow> real" where
  "getActivation now tid s =
     (case activations s tid of
        None \<Rightarrow> 0
      | Some activation \<Rightarrow>
          if now < decayStartsAt activation then level activation
          else
            (let decayElapsed = now - decayStartsAt activation;
                 decayProgress = min 1 (decayElapsed / decayDuration s);
                 easedDecay = 1 - decayProgress ^ 2
             in level activation * easedDecay))"

definition setGlowDuration :: "real \<Rightarrow> ActivationState \<Rightarrow> ActivationState" where
  "setGlowDuration ms s = s\<lparr>glowDuration := max 1000 (min 300000 ms)\<rparr>"

definition setDecayDuration :: "real \<Rightarrow> ActivationState \<Rightarrow> ActivationState" where
  "setDecayDuration ms s = s\<lparr>decayDuration := max 1000 (min 300000 ms)\<rparr>"

section \<open>The shared types (types)\<close>

datatype ThoughtCategory = Work | Personal | Technical | Creative | Other

type_synonym vec3 = "real \<times> real \<times> real"

text \<open>
  A \<open>Thought\<close> and a \<open>Connection\<close> with the fields the stores and the scene read. A \<open>Date\<close> is
  its \<open>getTime()\<close> value. The optional fields \<open>role\<close>, \<open>embedding\<close> and \<open>metadata\<close>, which no
  modelled function reads, are left out, and so is the conversion between the backend's
  field names and the frontend's (\<open>rustToThought\<close>, \<open>rustToConnection\<close>, \<open>rustToCluster\<close>),
  which copies field by field: the backend answers with frontend values here.
\<close>

record Thought =
  thought_id :: string
  content :: string
  category :: ThoughtCategory
  importance :: real
  position :: vec3
  thought_createdAt :: real
  lastReferenced :: real

record Connection =
  connection_id :: string
  fromThought :: string
  toThought :: string
  strength :: real
  reason :: string
  connection_createdAt :: real

record Cluster =
  cluster_id :: string
  cluster_name :: string
  cluster_category :: string
  center :: vec3
  thoughtCount :: int

section \<open>The thinking store (thinkingStore)\<close>

record ThinkingState =
  activePath :: "string list"
  pathProgress :: int
  isThinking :: bool
  synthesisId :: "string option"
  thinkingStartTime :: "real option"
  traversalSpeed :: real

definition initialThinkingState :: ThinkingState where
  "initialThinkingState =
     \<lparr>activePath = [], pathProgress = 0, isThinking = False, synthesisId = None,
      thinkingStartTime = None, traversalSpeed = 2\<rparr>"

text \<open>\<open>Array.prototype.indexOf\<close>: the first position of the element, or \<open>-1\<close>.\<close>

fun indexOf :: "'a list \<Rightarrow> 'a \<Rightarrow> int" where
  "indexOf [] a = -1"
| "indexOf (b # bs) a =
     (if b = a then 0 else (let r = indexOf bs a in if r = -1 then -1 else r + 1))"

text \<open>
  \<open>startThinking\<close>: the fields it sets. \<open>synthesisId || null\<close> turns a missing argument and
  the empty string into \<open>null\<close>. The interval timer it starts is \<open>advanceInterval_fire\<close>
  below, one call for each time the timer fires; the timeout it schedules at the end of
  the path is \<open>settleTimeout_fire\<close>.
\<close>

definition startThinking ::
  "real \<Rightarrow> string list \<Rightarrow> string option \<Rightarrow> ThinkingState \<Rightarrow> ThinkingState" where
  "startThinking now pathIds sid s =
     s\<lparr>activePath := pathIds, pathProgress := 0, isThinking := True,
       synthesisId := (case sid of None \<Rightarrow> None | Some i \<Rightarrow> if i = [] then None else Some i),
       thinkingStartTime := Some now\<rparr>"

definition advanceInterval_fire :: "ThinkingState \<Rightarrow> ThinkingState" where
  "advanceInterval_fire s =
     (if \<not> isThinking s then s
      else
        (let nextProgress = pathProgress s + 1 in
         if nextProgress \<ge> int (length (activePath s)) then s
         else s\<lparr>pathProgress := nextProgress\<rparr>))"

definition settleTimeout_fire :: "ThinkingState \<Rightarrow> ThinkingState" where
  "settleTimeout_fire s = s\<lparr>isThinking := False\<rparr>"

definition advancePath :: "ThinkingState \<Rightarrow> ThinkingState" where
  "advancePath s =
     (if pathProgress s < int (length (activePath s)) - 1
      then s\<lparr>pathProgress := pathProgress s + 1\<rparr> else s)"

definition stopThinking :: "ThinkingState \<Rightarrow> ThinkingState" where
  "stopThinking s =
     s\<lparr>isThinking := False, activePath := [], pathProgress := 0, synthesisId := None,
       thinkingStartTime := None\<rparr>"

definition setTraversalSpeed :: "real \<Rightarrow> ThinkingState \<Rightarrow> ThinkingState" where
  "setTraversalSpeed speed s = s\<lparr>traversalSpeed := max (1 / 2) (min 10 speed)\<rparr>"

definition isInPath :: "string \<Rightarrow> ThinkingState \<Rightarrow> bool" where
  "isInPath tid s = (tid \<in> set (activePath s))"

text \<open>The thinking store's \<open>getActivation\<close> (the activation store has one of its own).\<close>

definition thinking_getActivation :: "string \<Rightarrow> ThinkingState \<Rightarrow> real" where
  "thinking_getActivation tid s =
     (if \<not> isThinking s \<and> length (activePath s) = 0 then 0
      else
        (let index = indexOf (activePath s) tid in
         if index = -1 then 0
         else if Some tid = synthesisId s then
           (if pathProgress s \<ge> int (length (activePath s)) - 1 then 1 else 3 / 10)
         else if index \<le> pathProgress s then
           (let distanceFromHead = pathProgress s - index
            in max (4 / 10) (1 - real_of_int distanceFromHead * (15 / 100)))
         else 15 / 100))"

section \<open>Double arithmetic\<close>

text \<open>
  A JavaScript number is an IEEE 754 double, and \<open>+\<close>, \<open>-\<close>, \<open>*\<close> and \<open>/\<close> answer with the
  exact result rounded to the nearest double, a tie going to the even significand.
  \<open>round_double\<close> is that rounding for the normal range (53 significant bits; overflow and
  subnormal numbers are left out): the number is scaled by a power of two into the range
  from \<open>2\<^sup>5\<^sup>2\<close> to \<open>2\<^sup>5\<^sup>3\<close>, rounded to an integer, and scaled back.
\<close>

definition round_half_even :: "real \<Rightarrow> int" where
  "round_half_even y =
     (let m = \<lfloor>y\<rfloor>; r = y - of_int m
      in if r < 1 / 2 then m else if 1 / 2 < r then m + 1
         else if even m then m else m + 1)"

definition round_double_pos :: "real \<Rightarrow> real" where
  "round_double_pos x =
     (if 1 \<le> x then
        (let b = bitlen \<lfloor>x\<rfloor> in
         if b \<le> 53 then of_int (round_half_even (x * 2 ^ nat (53 - b))) / 2 ^ nat (53 - b)
         else of_int (round_half_even (x / 2 ^ nat (b - 53))) * 2 ^ nat (b - 53))
      else
        (let c = bitlen \<lfloor>1 / x\<rfloor>
         in of_int (round_half_even (x * 2 ^ nat (52 + c))) / 2 ^ nat (52 + c)))"

definition round_double :: "real \<Rightarrow> real" where
  "round_double x =
     (if x = 0 then 0 else if 0 < x then round_double_pos x else - round_double_pos (- x))"

section \<open>The timeline store (timelineStore)\<close>

record TimelineState =
  isActive :: bool
  currentTime :: real
  startTime :: real
  endTime :: real
  isPlaying :: bool
  playbackSpeed :: real

text \<open>The store is created with the three times set to the clock's value.\<close>

definition initialTimelineState :: "real \<Rightarrow> TimelineState" where
  "initialTimelineState now =
     \<lparr>isActive = False, currentTime = now, startTime = now, endTime = now,
      isPlaying = False, playbackSpeed = 100\<rparr>"

text \<open>\<open>enterTimeline\<close> on the creation times of the thoughts it is given.\<close>

definition enterTimeline :: "real \<Rightarrow> real list \<Rightarrow> TimelineState \<Rightarrow> TimelineState" where
  "enterTimeline now createdTimes s =
     (if length createdTimes = 0 then s
      else
        s\<lparr>isActive := True, startTime := Min (set createdTimes),
          endTime := max (Max (set createdTimes)) now, currentTime := Min (set createdTimes),
          isPlaying := False\<rparr>)"

definition exitTimeline :: "real \<Rightarrow> TimelineState \<Rightarrow> TimelineState" where
  "exitTimeline now s = s\<lparr>isActive := False, isPlaying := False, currentTime := now\<rparr>"

definition setCurrentTime :: "real \<Rightarrow> TimelineState \<Rightarrow> TimelineState" where
  "setCurrentTime t s = s\<lparr>currentTime := max (startTime s) (min (endTime s) t)\<rparr>"

definition setPlaybackSpeed :: "real \<Rightarrow> TimelineState \<Rightarrow> TimelineState" where
  "setPlaybackSpeed speed s = s\<lparr>playbackSpeed := max 1 (min 1000 speed)\<rparr>"

definition play :: "TimelineState \<Rightarrow> TimelineState" where
  "play s = s\<lparr>isPlaying := True\<rparr>"

definition pause :: "TimelineState \<Rightarrow> TimelineState" where
  "pause s = s\<lparr>isPlaying := False\<rparr>"

definition togglePlayback :: "TimelineState \<Rightarrow> TimelineState" where
  "togglePlayback s =
     (if \<not> isPlaying s \<and> currentTime s \<ge> endTime s
      then s\<lparr>currentTime := startTime s, isPlaying := True\<rparr>
      else s\<lparr>isPlaying := \<not> isPlaying s\<rparr>)"

definition timeline_tick :: "real \<Rightarrow> TimelineState \<Rightarrow> TimelineState" where
  "timeline_tick delta s =
     (if \<not> isActive s \<or> \<not> isPlaying s then s
      else
        (let advance = delta * 1000 * playbackSpeed s;
             newTime = currentTime s + advance
         in if newTime \<ge> endTime s then s\<lparr>currentTime := endTime s, isPlaying := False\<rparr>
            else s\<lparr>currentTime := newTime\<rparr>))"

text \<open>
  \<open>getProgress\<close> and \<open>setProgress\<close>, each subtraction, division, multiplication and addition
  rounded to a double. \<open>Math.max\<close> and \<open>Math.min\<close> do not round.
\<close>

definition getProgress :: "TimelineState \<Rightarrow> real" where
  "getProgress s =
     (if endTime s = startTime s then 1
      else round_double (round_double (currentTime s - startTime s)
                          / round_double (endTime s - startTime s)))"

definition setProgress :: "real \<Rightarrow> TimelineState \<Rightarrow> TimelineState" where
  "setProgress progress s =
     (let clampedProgress = max 0 (min 1 progress);
          newTime = round_double (startTime s
                      + round_double (round_double (endTime s - startTime s) * clampedProgress))
      in s\<lparr>currentTime := newTime\<rparr>)"

text \<open>
  \<open>isVisible\<close> and \<open>getVisibility\<close> take the creation time as a \<open>Date\<close> or a string; the
  argument here is the time value \<open>itemTime\<close> they compute from it.
\<close>

definition isVisible :: "real \<Rightarrow> TimelineState \<Rightarrow> bool" where
  "isVisible itemTime s = (if \<not> isActive s then True else itemTime \<le> currentTime s)"

definition getVisibility :: "real \<Rightarrow> TimelineState \<Rightarrow> real" where
  "getVisibility itemTime s =
     (if \<not> isActive s then 1
      else if itemTime > currentTime s then 0
      else
        (let fadeWindow = 2000; timeSinceAppeared = currentTime s - itemTime
         in if timeSinceAppeared < fadeWindow then timeSinceAppeared / fadeWindow else 1))"

section \<open>The mind store (mindStore)\<close>

text \<open>
  \<open>findReasoningPath\<close>. The id at the other end of a connection touching the new thought:
\<close>

definition connectedId :: "string \<Rightarrow> Connection \<Rightarrow> string" where
  "connectedId newThoughtId conn =
     (if fromThought conn = newThoughtId then toThought conn else fromThought conn)"

definition maxPathLength :: nat where
  "maxPathLength = 4"

text \<open>
  The body of the \<open>for\<close> loop, over the connections it visits in order: the id is pushed
  when a thought with that id exists and the path does not hold it yet.
\<close>

fun path_loop :: "string \<Rightarrow> Thought list \<Rightarrow> Connection list \<Rightarrow> string list \<Rightarrow> string list" where
  "path_loop newThoughtId ts [] path = path"
| "path_loop newThoughtId ts (conn # conns) path =
     (let cid = connectedId newThoughtId conn in
      path_loop newThoughtId ts conns
        (if find (\<lambda>t. thought_id t = cid) ts \<noteq> None \<and> cid \<notin> set path
         then path @ [cid] else path))"

text \<open>
  \<open>Array.prototype.sort\<close> is stable, and the comparator \<open>b.strength - a.strength\<close> puts the
  stronger connection first: a stable sort on the negated strength.
\<close>

definition findReasoningPath :: "string \<Rightarrow> Thought list \<Rightarrow> Connection list \<Rightarrow> string list" where
  "findReasoningPath newThoughtId ts cs =
     (let connectedToNew =
            filter (\<lambda>c. toThought c = newThoughtId \<or> fromThought c = newThoughtId) cs
      in if length connectedToNew = 0 then [newThoughtId]
         else
           (let sortedConnections = sort_key (\<lambda>c. - strength c) connectedToNew;
                visited = take (min (length sortedConnections) (maxPathLength - 1))
                            sortedConnections
            in path_loop newThoughtId ts visited [] @ [newThoughtId]))"

record MindState =
  thoughts :: "Thought list"
  connections :: "Connection list"
  clusters :: "Cluster list"
  useSpatialLoading :: bool
  totalThoughtCount :: int

text \<open>The fields \<open>sessions\<close> and \<open>currentSession\<close>, which no modelled action reads, are left out.\<close>

definition initialMindState :: MindState where
  "initialMindState =
     \<lparr>thoughts = [], connections = [], clusters = [], useSpatialLoading = False,
      totalThoughtCount = 0\<rparr>"

text \<open>The demo data; \<open>t0\<close> is the time the module was loaded (\<open>new Date()\<close>).\<close>

definition demoThoughts :: "real \<Rightarrow> Thought list" where
  "demoThoughts t0 =
     [\<lparr>thought_id = ''1'', content = ''The Mind: A 3D visualization of AI thought'',
       category = Creative, importance = 9 / 10, position = (0, 0, 0),
       thought_createdAt = t0, lastReferenced = t0\<rparr>,
      \<lparr>thought_id = ''2'', content = ''MCP Protocol integration with Claude Desktop'',
       category = Technical, importance = 8 / 10, position = (10, 5, -5),
       thought_createdAt = t0, lastReferenced = t0\<rparr>,
      \<lparr>thought_id = ''3'', content = ''React Three Fiber for 3D rendering'',
       category = Technical, importance = 7 / 10, position = (-8, 3, 8),
       thought_createdAt = t0, lastReferenced = t0\<rparr>,
      \<lparr>thought_id = ''4'', content = ''SQLite database for thought persistence'',
       category = Work, importance = 6 / 10, position = (5, -7, 3),
       thought_createdAt = t0, lastReferenced = t0\<rparr>,
      \<lparr>thought_id = ''5'', content = ''User experience and visual design'',
       category = Personal, importance = 5 / 10, position = (-12, 8, -10),
       thought_createdAt = t0, lastReferenced = t0\<rparr>]"

definition demoConnections :: "real \<Rightarrow> Connection list" where
  "demoConnections t0 =
     [\<lparr>connection_id = ''c1'', fromThought = ''1'', toThought = ''2'', strength = 8 / 10,
       reason = ''Core architecture'', connection_createdAt = t0\<rparr>,
      \<lparr>connection_id = ''c2'', fromThought = ''1'', toThought = ''3'', strength = 7 / 10,
       reason = ''Visualization layer'', connection_createdAt = t0\<rparr>,
      \<lparr>connection_id = ''c3'', fromThought = ''2'', toThought = ''4'', strength = 6 / 10,
       reason = ''Data persistence'', connection_createdAt = t0\<rparr>,
      \<lparr>connection_id = ''c4'', fromThought = ''3'', toThought = ''5'', strength = 5 / 10,
       reason = ''Design considerations'', connection_createdAt = t0\<rparr>]"

definition SPATIAL_THRESHOLD :: int where
  "SPATIAL_THRESHOLD = 500"

definition DEFAULT_SPATIAL_RADIUS :: real where
  "DEFAULT_SPATIAL_RADIUS = 80"

definition DEFAULT_SPATIAL_LIMIT :: nat where
  "DEFAULT_SPATIAL_LIMIT = 300"

text \<open>
  The backing store is reached through \<open>invoke\<close>. What it answers during one action is a
  record of responses, one for each command; \<open>None\<close> is a rejected call (the \<open>await\<close>
  throws). The commands \<open>add_thought\<close> and \<open>add_connection\<close> write to the backing store
  only, and nothing in the frontend state depends on their outcome.
\<close>

record DbVersion =
  thought_max_id :: int
  connection_max_id :: int

record Backend =
  get_db_version :: "DbVersion option"
  get_thought_count :: "int option"
  get_all_thoughts :: "Thought list option"
  get_all_connections :: "Connection list option"
  get_all_clusters :: "Cluster list option"
  get_thoughts_near :: "real \<Rightarrow> real \<Rightarrow> real \<Rightarrow> real \<Rightarrow> nat \<Rightarrow> Thought list option"
  get_connections_for_thoughts :: "string list \<Rightarrow> Connection list option"

text \<open>
  The three stores \<open>addThought\<close> writes to. Its synchronous part is modelled: the part
  after it only persists the thought.
\<close>

record Stores =
  mind :: MindState
  thinking :: ThinkingState
  activation :: ActivationState

definition addThought :: "real \<Rightarrow> Thought \<Rightarrow> Stores \<Rightarrow> Stores" where
  "addThought now thought st =
     (let state = mind st;
          connectedIds = findReasoningPath (thought_id thought) (thoughts state) (connections state);
          th = (if length connectedIds > 1
                then startThinking now connectedIds (Some (thought_id thought)) (thinking st)
                else thinking st);
          a1 = activateNode now (thought_id thought) 1 (activation st);
          connectedThoughts =
            map (\<lambda>c. if fromThought c = thought_id thought then toThought c else fromThought c)
              (filter (\<lambda>c. fromThought c = thought_id thought \<or> toThought c = thought_id thought)
                 (connections state));
          a2 = (if length connectedThoughts > 0
                then activateNodes now connectedThoughts (6 / 10) a1 else a1)
      in \<lparr>mind = state\<lparr>thoughts := thoughts state @ [thought]\<rparr>, thinking = th,
          activation = a2\<rparr>)"

definition addConnection :: "real \<Rightarrow> Connection \<Rightarrow> Stores \<Rightarrow> Stores" where
  "addConnection now connection st =
     st\<lparr>activation :=
          activateNodes now [fromThought connection, toThought connection] (8 / 10)
            (activation st),
        mind := (mind st)\<lparr>connections := connections (mind st) @ [connection]\<rparr>\<rparr>"

text \<open>
  \<open>loadFromDatabase\<close>. \<open>tauri\<close> is the value of \<open>isTauri()\<close>. Every rejected call inside the
  outer \<open>try\<close> ends in the \<open>catch\<close> that sets the demo data; a rejected \<open>get_thought_count\<close>
  and a rejected \<open>get_all_clusters\<close> are caught on the spot. When the backing store is
  empty the demo data is written to it and set, whether or not the writes succeed.
\<close>

definition setDemoData :: "real \<Rightarrow> MindState \<Rightarrow> MindState" where
  "setDemoData t0 s = s\<lparr>thoughts := demoThoughts t0, connections := demoConnections t0\<rparr>"

definition shouldUseSpatial :: "int \<Rightarrow> bool" where
  "shouldUseSpatial totalCount = (totalCount > SPATIAL_THRESHOLD)"

definition loadFromDatabase :: "bool \<Rightarrow> real \<Rightarrow> Backend \<Rightarrow> MindState \<Rightarrow> MindState" where
  "loadFromDatabase tauri t0 be s =
     (if tauri then
        (let totalCount = (case get_thought_count be of Some n \<Rightarrow> n | None \<Rightarrow> 0) in
         if shouldUseSpatial totalCount then
           s\<lparr>useSpatialLoading := True, totalThoughtCount := totalCount\<rparr>
         else
           (case get_all_thoughts be of
              None \<Rightarrow> setDemoData t0 s
            | Some ts \<Rightarrow>
               (case get_all_connections be of
                  None \<Rightarrow> setDemoData t0 s
                | Some cs \<Rightarrow>
                   (let cls = (case get_all_clusters be of Some c \<Rightarrow> c | None \<Rightarrow> []);
                        s1 = s\<lparr>thoughts := ts, connections := cs, clusters := cls,
                               useSpatialLoading := False, totalThoughtCount := totalCount\<rparr>
                    in if length ts = 0 then setDemoData t0 s1 else s1))))
      else setDemoData t0 s)"

text \<open>
  \<open>loadNearCamera\<close>. The result \<open>None\<close> is a rejected promise: the fallback in the \<open>catch\<close>
  is not guarded, and the store is then left as it was.
\<close>

definition loadNearCamera ::
  "bool \<Rightarrow> Backend \<Rightarrow> real \<Rightarrow> real \<Rightarrow> real \<Rightarrow> real \<Rightarrow> nat \<Rightarrow> MindState \<Rightarrow> MindState option" where
  "loadNearCamera tauri be cx cy cz radius limit s =
     (if \<not> tauri then Some s
      else
        (let fallback =
               (case get_all_thoughts be of
                  None \<Rightarrow> None
                | Some ts \<Rightarrow>
                   (case get_all_connections be of
                      None \<Rightarrow> None
                    | Some cs \<Rightarrow>
                        Some (s\<lparr>thoughts := ts, connections := cs,
                                useSpatialLoading := False\<rparr>)))
         in case get_thoughts_near be cx cy cz radius limit of
              None \<Rightarrow> fallback
            | Some ts \<Rightarrow>
               (let ids = map thought_id ts in
                if length ids > 0 then
                  (case get_connections_for_thoughts be ids of
                     None \<Rightarrow> fallback
                   | Some cs \<Rightarrow> Some (s\<lparr>thoughts := ts, connections := cs\<rparr>))
                else Some (s\<lparr>thoughts := ts, connections := []\<rparr>))))"

text \<open>A call that leaves out \<open>radius\<close> and \<open>limit\<close> takes the defaults.\<close>

definition loadNearCamera_default ::
  "bool \<Rightarrow> Backend \<Rightarrow> real \<Rightarrow> real \<Rightarrow> real \<Rightarrow> MindState \<Rightarrow> MindState option" where
  "loadNearCamera_default tauri be cx cy cz s =
     loadNearCamera tauri be cx cy cz DEFAULT_SPATIAL_RADIUS DEFAULT_SPATIAL_LIMIT s"

section \<open>The scene (MindSpace)\<close>

text \<open>
  The connections the scene keeps in timeline mode: both endpoints are found among the
  loaded thoughts and both are visible at the timeline's current time.
\<close>

definition visibleConnections ::
  "TimelineState \<Rightarrow> Thought list \<Rightarrow> Connection list \<Rightarrow> Connection list" where
  "visibleConnections tline ts cs =
     (if \<not> isActive tline then cs
      else
        filter (\<lambda>conn.
          (let fromT = find (\<lambda>t. thought_id t = fromThought conn) ts;
               toT = find (\<lambda>t. thought_id t = toThought conn) ts
           in case (fromT, toT) of
                (Some f, Some t) \<Rightarrow>
                   isVisible (thought_createdAt f) tline \<and> isVisible (thought_createdAt t) tline
              | _ \<Rightarrow> False)) cs)"

text \<open>
  The element drawn for one connection, \<open>None\<close> for the \<open>null\<close> that React skips. The
  colours are looked up from the categories of the two thoughts; the element keeps the
  categories.
\<close>

record AxonConnection =
  axon_key :: string
  connectionId :: string
  axon_start :: vec3
  axon_end :: vec3
  startCategory :: ThoughtCategory
  endCategory :: ThoughtCategory
  fromThoughtId :: string
  toThoughtId :: string
  axon_strength :: real

definition renderConnection :: "Thought list \<Rightarrow> Connection \<Rightarrow> AxonConnection option" where
  "renderConnection ts connection =
     (let fromT = find (\<lambda>t. thought_id t = fromThought connection) ts;
          toT = find (\<lambda>t. thought_id t = toThought connection) ts
      in case (fromT, toT) of
           (Some f, Some t) \<Rightarrow>
              Some \<lparr>axon_key = connection_id connection,
                    connectionId = connection_id connection,
                    axon_start = position f, axon_end = position t,
                    startCategory = category f, endCategory = category t,
                    fromThoughtId = fromThought connection,
                    toThoughtId = toThought connection,
                    axon_strength = strength connection\<rparr>
         | _ \<Rightarrow> None)"

definition axonElements ::
  "TimelineState \<Rightarrow> Thought list \<Rightarrow> Connection list \<Rightarrow> AxonConnection option list" where
  "axonElements tline ts cs = map (renderConnection ts) (visibleConnections tline ts cs)"

text \<open>What is drawn: the elements that are not \<open>null\<close>.\<close>

definition renderedAxons ::
  "TimelineState \<Rightarrow> Thought list \<Rightarrow> Connection list \<Rightarrow> AxonConnection list" where
  "renderedAxons tline ts cs = List.map_filter (\<lambda>e. e) (axonElements tline ts cs)"

section \<open>The polling hook (useDatabaseSync)\<close>

text \<open>
  The hook keeps the last accepted version in a ref and calls the store's load actions.
  One call of \<open>checkForUpdates\<close> returns the new ref and store together with the load
  actions it called, in order. \<open>spatialRef.current\<close> is the store's \<open>useSpatialLoading\<close> flag.
  A rejected \<open>get_db_version\<close>, and a rejected \<open>loadNearCamera\<close>, end in the \<open>catch\<close> that
  calls \<open>loadFromDatabase\<close>, which never rejects.
\<close>

datatype LoadCall = CallLoadNearCamera real real real | CallLoadFromDatabase

record SyncState =
  lastVersion :: DbVersion
  store :: MindState


definition checkForUpdates ::
  "bool \<Rightarrow> real \<Rightarrow> Backend \<Rightarrow> SyncState \<Rightarrow> SyncState \<times> LoadCall list" where
  "checkForUpdates tauri t0 be st =
     (if \<not> tauri then (st, [])
      else
        (case get_db_version be of
           None \<Rightarrow>
             (st\<lparr>store := loadFromDatabase tauri t0 be (store st)\<rparr>, [CallLoadFromDatabase])
         | Some version \<Rightarrow>
             (let prev = lastVersion st in
              if thought_max_id version \<noteq> thought_max_id prev \<or>
                 connection_max_id version \<noteq> connection_max_id prev
              then
                (let st1 = st\<lparr>lastVersion := version\<rparr> in
                 if useSpatialLoading (store st) then
                   (case loadNearCamera_default tauri be 0 0 50 (store st) of
                      Some s' \<Rightarrow> (st1\<lparr>store := s'\<rparr>, [CallLoadNearCamera 0 0 50])
                    | None \<Rightarrow>
                        (st1\<lparr>store := loadFromDatabase tauri t0 be (store st)\<rparr>,
                         [CallLoadNearCamera 0 0 50, CallLoadFromDatabase]))
                 else
                   (st1\<lparr>store := loadFromDatabase tauri t0 be (store st)\<rparr>,
                    [CallLoadFromDatabase]))
              else (st, []))))"



section \<open>The backing store\<close>

text \<open>
  Modelled from the spec: the radius test of the spatial query \<open>get_thoughts_near\<close>, which
  the backing store (the Tauri backend, not among the source files) implements. A thought
  is within the radius when the distance from the centre to its position is at most the
  radius; the distances are compared by their squares, for a radius that is not negative.
\<close>

definition within_radius :: "vec3 \<Rightarrow> real \<Rightarrow> Thought \<Rightarrow> bool" where
  "within_radius c radius t =
     (case (c, position t) of
        ((cx, cy, cz), (px, py, pz)) \<Rightarrow>
          (px - cx) ^ 2 + (py - cy) ^ 2 + (pz - cz) ^ 2 \<le> radius ^ 2)"

text \<open>
  Modelled from the spec: the backing store behind \<open>invoke\<close> (the Tauri backend), which is
  not among the source files. It holds the whole graph; \<open>get_thought_count\<close> is the number
  of stored thoughts, \<open>get_thoughts_near\<close> answers with the stored thoughts within the
  radius of the centre, cut at the result cap \<open>limit\<close>, and \<open>get_connections_for_thoughts\<close>
  answers with the connections whose both endpoints are among the given ids. The version
  token is a parameter. No call is rejected.
\<close>

definition storeBackend ::
  "DbVersion \<Rightarrow> Thought list \<Rightarrow> Connection list \<Rightarrow> Cluster list \<Rightarrow> Backend" where
  "storeBackend v ts cs cls =
     \<lparr>get_db_version = Some v,
      get_thought_count = Some (int (length ts)),
      get_all_thoughts = Some ts,
      get_all_connections = Some cs,
      get_all_clusters = Some cls,
      get_thoughts_near = (\<lambda>cx cy cz radius limit.
        Some (take limit (filter (within_radius (cx, cy, cz) radius) ts))),
      get_connections_for_thoughts = (\<lambda>ids.
        Some (filter (\<lambda>c. fromThought c \<in> set ids \<and> toThought c \<in> set ids) cs))\<rparr>"

section \<open>Example data\<close>

text \<open>
  The scenario of a new thought \<open>t9\<close> that arrives with two connections, of strength 0.9 to
  the existing thought \<open>t1\<close> and of strength 0.3 to the existing thought \<open>t2\<close>. The weaker
  connection is stored first.
\<close>

definition scenarioThoughts :: "Thought list" where
  "scenarioThoughts =
     [\<lparr>thought_id = ''t1'', content = ''first'', category = Work, importance = 1 / 2,
       position = (0, 0, 0), thought_createdAt = 0, lastReferenced = 0\<rparr>,
      \<lparr>thought_id = ''t2'', content = ''second'', category = Other, importance = 1 / 2,
       position = (1, 0, 0), thought_createdAt = 0, lastReferenced = 0\<rparr>]"

definition scenarioConnections :: "Connection list" where
  "scenarioConnections =
     [\<lparr>connection_id = ''k2'', fromThought = ''t2'', toThought = ''t9'', strength = 3 / 10,
       reason = ''weak'', connection_createdAt = 0\<rparr>,
      \<lparr>connection_id = ''k1'', fromThought = ''t9'', toThought = ''t1'', strength = 9 / 10,
       reason = ''strong'', connection_createdAt = 0\<rparr>]"

definition scenarioNewThought :: Thought where
  "scenarioNewThought =
     \<lparr>thought_id = ''t9'', content = ''new'', category = Creative, importance = 1 / 2,
      position = (2, 0, 0), thought_createdAt = 1, lastReferenced = 1\<rparr>"

definition scenarioStores :: Stores where
  "scenarioStores =
     \<lparr>mind = initialMindState\<lparr>thoughts := scenarioThoughts,
                               connections := scenarioConnections\<rparr>,
      thinking = initialThinkingState, activation = initialActivationState\<rparr>"

text \<open>
  A backing store without thoughts that answers every call and reports the given maximal
  row ids, and a list of \<open>n\<close> thoughts with different ids laid out along one axis, a
  tenth of a unit apart.
\<close>

definition exampleBackend :: "int \<Rightarrow> int \<Rightarrow> Backend" where
  "exampleBackend tmax cmax =
     \<lparr>get_db_version = Some \<lparr>thought_max_id = tmax, connection_max_id = cmax\<rparr>,
      get_thought_count = Some 0,
      get_all_thoughts = Some [],
      get_all_connections = Some [],
      get_all_clusters = Some [],
      get_thoughts_near = (\<lambda>cx cy cz radius limit. Some []),
      get_connections_for_thoughts = (\<lambda>ids. Some [])\<rparr>"

definition manyThoughts :: "nat \<Rightarrow> Thought list" where
  "manyThoughts n =
     map (\<lambda>i. \<lparr>thought_id = replicate (Suc i) (CHR ''t''), content = ''filler'',
                category = Other, importance = 1 / 2, position = (real i / 10, 0, 0),
                thought_createdAt = 0, lastReferenced = 0\<rparr>) [0..<n]"

section \<open>Properties of the activation store\<close>


lemma activateNode_durations:
  "decayDuration (activateNode now tid x s) = decayDuration s"
  "glowDuration (activateNode now tid x s) = glowDuration s"
  by (simp_all add: activateNode_def)

text \<open>
  C9. Calling \<open>activateNode\<close> twice with the same id, intensity and clock value leaves the
  store exactly as one call does; in particular the record of the id (level,
  lastActivatedAt, decayStartsAt) is the same.
\<close>

theorem activateNode_idempotent:
  "activateNode t tid x (activateNode t tid x s) = activateNode t tid x s"
  by (simp add: activateNode_def)

lemma getActivation_activateNode:
  "getActivation t tid (activateNode t0 tid x s) =
     (if t < t0 + glowDuration s then min 1 x
      else min 1 x * (1 - (min 1 ((t - (t0 + glowDuration s)) / decayDuration s)) ^ 2))"
  by (simp add: getActivation_def activateNode_def Let_def)

lemma decay_factor_antimono:
  fixes a b D :: real
  assumes "0 < D" "0 \<le> a" "a \<le> b"
  shows "1 - (min 1 (b / D)) ^ 2 \<le> 1 - (min 1 (a / D)) ^ 2"
proof -
  have nonneg: "0 \<le> min 1 (a / D)" using assms by simp
  have "min 1 (a / D) \<le> min 1 (b / D)"
    using assms by (simp add: divide_right_mono min.coboundedI2)
  then have "(min 1 (a / D)) ^ 2 \<le> (min 1 (b / D)) ^ 2"
    using nonneg by (rule power_mono)
  then show ?thesis by simp
qed

lemma decay_factor_range:
  fixes a D :: real
  assumes "0 < D" "0 \<le> a"
  shows "0 \<le> 1 - (min 1 (a / D)) ^ 2" "1 - (min 1 (a / D)) ^ 2 \<le> 1"
proof -
  have "0 \<le> min 1 (a / D)" "min 1 (a / D) \<le> 1" using assms by simp_all
  then have "(min 1 (a / D)) ^ 2 \<le> 1" by (simp add: power_le_one)
  then show "0 \<le> 1 - (min 1 (a / D)) ^ 2" by simp
  show "1 - (min 1 (a / D)) ^ 2 \<le> 1" by simp
qed

text \<open>
  C3. For a record created by \<open>activateNode\<close> at time \<open>t0\<close> with an intensity in the range
  the callers pass (not negative; the level of a record is a number from 0 to 1), in a
  store whose decay duration is positive (it is 60000, and the setter keeps it between 1000
  and 300000): the level read back is the assigned level \<open>min 1 intensity\<close> at every time
  before the decay start \<open>t0 + glowDuration\<close>; over the decay interval it is
  \<open>level * (1 - (elapsed / decayDuration)\<^sup>2)\<close>; it never increases with time; and it is
  exactly 0 at decay start + decay duration. With the initial durations 30000 and 60000 and
  intensity 1 at time 0 the level is 1 at 29000, 0.75 at 60000 and 0 at 90000. An id without
  a record reads 0.
\<close>

theorem activation_level_over_time:
  assumes "0 \<le> intensity" and "0 < decayDuration s"
  shows "(\<forall>t. t < t0 + glowDuration s \<longrightarrow>
            getActivation t tid (activateNode t0 tid intensity s) = min 1 intensity)
       \<and> (\<forall>t. t0 + glowDuration s \<le> t \<and> t \<le> t0 + glowDuration s + decayDuration s \<longrightarrow>
            getActivation t tid (activateNode t0 tid intensity s) =
              min 1 intensity * (1 - ((t - (t0 + glowDuration s)) / decayDuration s) ^ 2))
       \<and> (\<forall>t1 t2. t1 \<le> t2 \<longrightarrow>
            getActivation t2 tid (activateNode t0 tid intensity s)
              \<le> getActivation t1 tid (activateNode t0 tid intensity s))
       \<and> getActivation (t0 + glowDuration s + decayDuration s) tid
            (activateNode t0 tid intensity s) = 0
       \<and> getActivation 29000 ''t1'' (activateNode 0 ''t1'' 1 initialActivationState) = 1
       \<and> getActivation 60000 ''t1'' (activateNode 0 ''t1'' 1 initialActivationState) = 3 / 4
       \<and> getActivation 90000 ''t1'' (activateNode 0 ''t1'' 1 initialActivationState) = 0
       \<and> (\<forall>t u. activations s u = None \<longrightarrow> getActivation t u s = 0)"
proof (intro conjI allI impI)
  fix t assume "t < t0 + glowDuration s"
  then show "getActivation t tid (activateNode t0 tid intensity s) = min 1 intensity"
    by (simp add: getActivation_activateNode)
next
  fix t assume h: "t0 + glowDuration s \<le> t \<and> t \<le> t0 + glowDuration s + decayDuration s"
  then have "(t - (t0 + glowDuration s)) / decayDuration s \<le> 1"
    using assms(2) by simp
  then show "getActivation t tid (activateNode t0 tid intensity s) =
              min 1 intensity * (1 - ((t - (t0 + glowDuration s)) / decayDuration s) ^ 2)"
    using h by (simp add: getActivation_activateNode min_absorb2)
next
  fix t1 t2 :: real assume le: "t1 \<le> t2"
  let ?d = "t0 + glowDuration s"
  let ?L = "min 1 intensity"
  have L0: "0 \<le> ?L" using assms(1) by simp
  show "getActivation t2 tid (activateNode t0 tid intensity s)
          \<le> getActivation t1 tid (activateNode t0 tid intensity s)"
  proof (cases "t2 < ?d")
    case True
    then show ?thesis using le by (simp add: getActivation_activateNode)
  next
    case False
    then have t2: "0 \<le> t2 - ?d" by simp
    show ?thesis
    proof (cases "t1 < ?d")
      case True
      have "?L * (1 - (min 1 ((t2 - ?d) / decayDuration s)) ^ 2) \<le> ?L * 1"
        using decay_factor_range(2)[OF assms(2) t2] L0 by (rule mult_left_mono)
      then show ?thesis using True False by (simp add: getActivation_activateNode)
    next
      case F1: False
      then have "0 \<le> t1 - ?d" "t1 - ?d \<le> t2 - ?d" using le by simp_all
      then have "?L * (1 - (min 1 ((t2 - ?d) / decayDuration s)) ^ 2)
                 \<le> ?L * (1 - (min 1 ((t1 - ?d) / decayDuration s)) ^ 2)"
        using decay_factor_antimono[OF assms(2)] L0 by (intro mult_left_mono) auto
      then show ?thesis using F1 False by (simp add: getActivation_activateNode)
    qed
  qed
next
  show "getActivation (t0 + glowDuration s + decayDuration s) tid
            (activateNode t0 tid intensity s) = 0"
    using assms(2) by (simp add: getActivation_activateNode)
next
  show "getActivation 29000 ''t1'' (activateNode 0 ''t1'' 1 initialActivationState) = 1"
    by (simp add: getActivation_activateNode initialActivationState_def)
next
  show "getActivation 60000 ''t1'' (activateNode 0 ''t1'' 1 initialActivationState) = 3 / 4"
    by (simp add: getActivation_activateNode initialActivationState_def power2_eq_square)
next
  show "getActivation 90000 ''t1'' (activateNode 0 ''t1'' 1 initialActivationState) = 0"
    by (simp add: getActivation_activateNode initialActivationState_def)
next
  fix t u assume "activations s u = None"
  then show "getActivation t u s = 0" by (simp add: getActivation_def)
qed

theorem activation_level_over_time_witness:
  "0 \<le> (1 / 2 :: real) \<and> 0 < decayDuration initialActivationState
   \<and> getActivation 10 ''t1'' (activateNode 0 ''t1'' (1 / 2) initialActivationState) = 1 / 2
   \<and> getActivation 60000 ''t1'' (activateNode 0 ''t1'' (1 / 2) initialActivationState) = 3 / 8
   \<and> getActivation 60000 ''t1'' (activateNode 0 ''t1'' (1 / 2) initialActivationState)
        \<le> getActivation 40000 ''t1'' (activateNode 0 ''t1'' (1 / 2) initialActivationState)
   \<and> getActivation 90000 ''t1'' (activateNode 0 ''t1'' (1 / 2) initialActivationState) = 0
   \<and> getActivation 5 ''t2'' initialActivationState = 0"
proof -
  have h1: "0 \<le> (1 / 2 :: real)" by simp
  have h2: "0 < decayDuration initialActivationState"
    by (simp add: initialActivationState_def)
  note th = activation_level_over_time [OF h1 h2, of 0 "''t1''"]
  have g: "glowDuration initialActivationState = 30000"
    and d: "decayDuration initialActivationState = 60000"
    and n: "activations initialActivationState ''t2'' = None"
    by (simp_all add: initialActivationState_def)
  from th have a: "getActivation 10 ''t1'' (activateNode 0 ''t1'' (1 / 2) initialActivationState)
                     = 1 / 2"
    by (simp add: g)
  from th have "getActivation 60000 ''t1'' (activateNode 0 ''t1'' (1 / 2) initialActivationState)
                  = min 1 (1 / 2) * (1 - ((60000 - (0 + 30000)) / 60000)\<^sup>2)"
    by (simp add: g d)
  then have b: "getActivation 60000 ''t1'' (activateNode 0 ''t1'' (1 / 2) initialActivationState)
                  = 3 / 8"
    by (simp add: power2_eq_square)
  from th have c: "getActivation 60000 ''t1'' (activateNode 0 ''t1'' (1 / 2) initialActivationState)
        \<le> getActivation 40000 ''t1'' (activateNode 0 ''t1'' (1 / 2) initialActivationState)"
    by simp
  from th have e: "getActivation 90000 ''t1'' (activateNode 0 ''t1'' (1 / 2) initialActivationState)
                     = 0"
    by (simp add: g d)
  from th n have f: "getActivation 5 ''t2'' initialActivationState = 0"
    by blast
  from h1 h2 a b c e f show ?thesis by blast
qed








section \<open>Properties of the timeline store\<close>

text \<open>
  C10. When timeline mode is not active, \<open>isVisible\<close> answers true and \<open>getVisibility\<close>
  answers 1 for every creation time, whatever the stored current, start and end times.
\<close>

theorem timeline_inactive_visible:
  "\<not> isActive s \<Longrightarrow> isVisible itemTime s = True \<and> getVisibility itemTime s = 1"
  by (simp add: isVisible_def getVisibility_def)

theorem timeline_inactive_visible_witness:
  "\<not> isActive (initialTimelineState 0)
   \<and> isVisible 99 (initialTimelineState 0) = True
   \<and> getVisibility 99 (initialTimelineState 0) = 1"
proof -
  have h: "\<not> isActive (initialTimelineState 0)" by (simp add: initialTimelineState_def)
  from timeline_inactive_visible [OF h, of 99] h show ?thesis by simp
qed

lemma round_double_scenario:
  "round_double 1000 = 1000" "round_double 2000 = 2000" "round_double 3000 = 3000"
  "round_double 4000 = 4000" "round_double (1 / 4) = 1 / 4" "round_double (1 / 2) = 1 / 2"
  "round_double (3 / 4) = 3 / 4"
  by code_simp+

lemma round_double_thousandth:
  "round_double (1 / 1000) = 1152921504606847 / 2 ^ 60"
  by code_simp

lemma setProgress_currentTime:
  assumes "0 \<le> p" and "p \<le> 1"
  shows "currentTime (setProgress p s) =
           round_double (startTime s + round_double (round_double (endTime s - startTime s) * p))"
  using assms by (simp add: setProgress_def Let_def)

lemma setProgress_bounds:
  "startTime (setProgress p s) = startTime s" "endTime (setProgress p s) = endTime s"
  by (simp_all add: setProgress_def Let_def)

lemma getProgress_quotient:
  assumes "startTime s < endTime s"
  shows "getProgress s =
           round_double (round_double (currentTime s - startTime s)
                          / round_double (endTime s - startTime s))"
  using assms by (simp add: getProgress_def)

lemma progress_roundtrip_exact:
  assumes lt: "startTime s < endTime s" and p: "0 \<le> p" "p \<le> 1"
    and ep: "round_double p = p"
    and ed: "round_double (endTime s - startTime s) = endTime s - startTime s"
    and em: "round_double ((endTime s - startTime s) * p) = (endTime s - startTime s) * p"
    and ea: "round_double (startTime s + (endTime s - startTime s) * p)
               = startTime s + (endTime s - startTime s) * p"
  shows "currentTime (setProgress p s) = startTime s + (endTime s - startTime s) * p"
    and "getProgress (setProgress p s) = p"
proof -
  show cur: "currentTime (setProgress p s) = startTime s + (endTime s - startTime s) * p"
    unfolding setProgress_currentTime [OF p] ed em ea ..
  from lt have lt': "startTime (setProgress p s) < endTime (setProgress p s)"
    by (simp only: setProgress_bounds)
  from lt have nz: "endTime s - startTime s \<noteq> 0" by simp
  have "getProgress (setProgress p s) =
          round_double (round_double ((endTime s - startTime s) * p)
                          / round_double (endTime s - startTime s))"
    unfolding getProgress_quotient [OF lt'] setProgress_bounds cur by simp
  also have "\<dots> = round_double (((endTime s - startTime s) * p) / (endTime s - startTime s))"
    by (simp only: em ed)
  also have "\<dots> = round_double p" using nz by simp
  finally show "getProgress (setProgress p s) = p" by (simp only: ep)
qed

text \<open>
  C7 (as amended). In a timeline with \<open>startTime < endTime\<close>, \<open>getProgress\<close> is
  \<open>(currentTime - startTime) / (endTime - startTime)\<close> and \<open>setProgress p\<close> with \<open>p\<close> in [0, 1]
  sets the current time to \<open>startTime + (endTime - startTime) * p\<close>, every operation rounded
  to a double. When none of the operations rounds, the current time is exactly that sum
  and \<open>getProgress\<close> then answers \<open>p\<close>. So it is with start 1000, end 5000 and current time
  3000: the progress is 0.5, \<open>setProgress 0.25\<close> sets the current time to 2000, and
  \<open>getProgress\<close> then answers 0.25.
\<close>

theorem timeline_progress_rounded:
  assumes "startTime s < endTime s"
  shows "getProgress s =
           round_double (round_double (currentTime s - startTime s)
                          / round_double (endTime s - startTime s))
       \<and> (0 \<le> p \<and> p \<le> 1 \<longrightarrow>
            currentTime (setProgress p s) =
              round_double (startTime s
                + round_double (round_double (endTime s - startTime s) * p))
            \<and> (round_double p = p
                 \<and> round_double (endTime s - startTime s) = endTime s - startTime s
                 \<and> round_double ((endTime s - startTime s) * p) = (endTime s - startTime s) * p
                 \<and> round_double (startTime s + (endTime s - startTime s) * p)
                     = startTime s + (endTime s - startTime s) * p
                 \<longrightarrow> currentTime (setProgress p s)
                       = startTime s + (endTime s - startTime s) * p
                     \<and> getProgress (setProgress p s) = p))
       \<and> getProgress \<lparr>isActive = a, currentTime = 3000, startTime = 1000, endTime = 5000,
                       isPlaying = b, playbackSpeed = v\<rparr> = 1 / 2
       \<and> currentTime (setProgress (1 / 4)
            \<lparr>isActive = a, currentTime = 3000, startTime = 1000, endTime = 5000,
             isPlaying = b, playbackSpeed = v\<rparr>) = 2000
       \<and> getProgress (setProgress (1 / 4)
            \<lparr>isActive = a, currentTime = 3000, startTime = 1000, endTime = 5000,
             isPlaying = b, playbackSpeed = v\<rparr>) = 1 / 4"
proof (intro conjI impI)
  show "getProgress s =
           round_double (round_double (currentTime s - startTime s)
                          / round_double (endTime s - startTime s))"
    by (rule getProgress_quotient [OF assms])
next
  assume "0 \<le> p \<and> p \<le> 1"
  then show "currentTime (setProgress p s) =
              round_double (startTime s
                + round_double (round_double (endTime s - startTime s) * p))"
    by (simp add: setProgress_currentTime)
next
  assume p: "0 \<le> p \<and> p \<le> 1"
    and e: "round_double p = p
                 \<and> round_double (endTime s - startTime s) = endTime s - startTime s
                 \<and> round_double ((endTime s - startTime s) * p) = (endTime s - startTime s) * p
                 \<and> round_double (startTime s + (endTime s - startTime s) * p)
                     = startTime s + (endTime s - startTime s) * p"
  from p e show "currentTime (setProgress p s) = startTime s + (endTime s - startTime s) * p"
    by (intro progress_roundtrip_exact(1) [OF assms]) simp_all
  from p e show "getProgress (setProgress p s) = p"
    by (intro progress_roundtrip_exact(2) [OF assms]) simp_all
next
  show "getProgress \<lparr>isActive = a, currentTime = 3000, startTime = 1000, endTime = 5000,
                       isPlaying = b, playbackSpeed = v\<rparr> = 1 / 2"
    by (simp add: getProgress_def round_double_scenario)
next
  show "currentTime (setProgress (1 / 4)
            \<lparr>isActive = a, currentTime = 3000, startTime = 1000, endTime = 5000,
             isPlaying = b, playbackSpeed = v\<rparr>) = 2000"
    by (simp add: setProgress_def Let_def round_double_scenario)
next
  show "getProgress (setProgress (1 / 4)
            \<lparr>isActive = a, currentTime = 3000, startTime = 1000, endTime = 5000,
             isPlaying = b, playbackSpeed = v\<rparr>) = 1 / 4"
    by (simp add: getProgress_def setProgress_def Let_def round_double_scenario)
qed

theorem timeline_progress_rounded_witness:
  "startTime \<lparr>isActive = True, currentTime = 3000, startTime = 1000, endTime = 5000,
              isPlaying = False, playbackSpeed = 100\<rparr>
     < endTime \<lparr>isActive = True, currentTime = 3000, startTime = 1000, endTime = 5000,
                isPlaying = False, playbackSpeed = 100\<rparr>
   \<and> (0 :: real) \<le> 3 / 4 \<and> (3 / 4 :: real) \<le> 1
   \<and> round_double (3 / 4) = 3 / 4 \<and> round_double (5000 - 1000) = 5000 - 1000
   \<and> round_double ((5000 - 1000) * (3 / 4)) = (5000 - 1000) * (3 / 4)
   \<and> round_double (1000 + (5000 - 1000) * (3 / 4)) = 1000 + (5000 - 1000) * (3 / 4)
   \<and> currentTime (setProgress (3 / 4)
         \<lparr>isActive = True, currentTime = 3000, startTime = 1000, endTime = 5000,
          isPlaying = False, playbackSpeed = 100\<rparr>) = 4000
   \<and> getProgress (setProgress (3 / 4)
         \<lparr>isActive = True, currentTime = 3000, startTime = 1000, endTime = 5000,
          isPlaying = False, playbackSpeed = 100\<rparr>) = 3 / 4"
proof -
  let ?S = "\<lparr>isActive = True, currentTime = 3000, startTime = 1000, endTime = 5000,
              isPlaying = False, playbackSpeed = 100\<rparr>"
  have h: "startTime ?S < endTime ?S" by simp
  have e: "round_double (3 / 4) = 3 / 4" "round_double (5000 - 1000) = 5000 - 1000"
    "round_double ((5000 - 1000) * (3 / 4)) = (5000 - 1000) * (3 / 4)"
    "round_double (1000 + (5000 - 1000) * (3 / 4)) = 1000 + (5000 - 1000) * (3 / 4)"
    by (simp_all add: round_double_scenario)
  from timeline_progress_rounded [OF h, of "3 / 4"] e
  have "currentTime (setProgress (3 / 4) ?S) = 4000"
    and "getProgress (setProgress (3 / 4) ?S) = 3 / 4"
    by simp_all
  with h e show ?thesis by simp
qed

text \<open>
  The claim as stated takes the round trip to be exact. On times in milliseconds since
  1970 the sum in \<open>setProgress\<close> is rounded to a multiple of \<open>2\<^sup>-\<^sup>1\<^sup>2\<close>: with start
  1700000000000, end 1700000123457 and the double nearest to 0.001, the current time is
  set to 1700000000123.45703125 and \<open>getProgress\<close> answers 0.0010000002531245697.
\<close>

theorem timeline_progress_roundtrip_counterexample:
  "startTime \<lparr>isActive = True, currentTime = 1700000000000, startTime = 1700000000000,
              endTime = 1700000123457, isPlaying = False, playbackSpeed = 100\<rparr>
     < endTime \<lparr>isActive = True, currentTime = 1700000000000, startTime = 1700000000000,
                endTime = 1700000123457, isPlaying = False, playbackSpeed = 100\<rparr>
   \<and> 0 \<le> round_double (1 / 1000) \<and> round_double (1 / 1000) \<le> 1
   \<and> getProgress (setProgress (round_double (1 / 1000))
         \<lparr>isActive = True, currentTime = 1700000000000, startTime = 1700000000000,
          endTime = 1700000123457, isPlaying = False, playbackSpeed = 100\<rparr>)
       = 4611687185758427 / 2 ^ 62
   \<and> getProgress (setProgress (round_double (1 / 1000))
         \<lparr>isActive = True, currentTime = 1700000000000, startTime = 1700000000000,
          endTime = 1700000123457, isPlaying = False, playbackSpeed = 100\<rparr>)
       \<noteq> round_double (1 / 1000)"
proof -
  have g: "getProgress (setProgress (round_double (1 / 1000))
         \<lparr>isActive = True, currentTime = 1700000000000, startTime = 1700000000000,
          endTime = 1700000123457, isPlaying = False, playbackSpeed = 100\<rparr>)
       = 4611687185758427 / 2 ^ 62"
    by code_simp
  show ?thesis
    unfolding g by (simp add: round_double_thousandth)
qed

section \<open>Properties of the thinking store\<close>

lemma indexOf_lower: "- 1 \<le> indexOf xs a"
  by (induction xs) (auto simp add: Let_def)

lemma indexOf_absent_iff: "indexOf xs a = - 1 \<longleftrightarrow> a \<notin> set xs"
proof (induction xs)
  case Nil
  then show ?case by simp
next
  case (Cons b bs)
  have "indexOf bs a + 1 \<noteq> - 1" using indexOf_lower [of bs a] by arith
  with Cons show ?case by (auto simp add: Let_def)
qed

lemma indexOf_present:
  "a \<in> set xs \<Longrightarrow>
     0 \<le> indexOf xs a \<and> indexOf xs a < int (length xs) \<and> xs ! nat (indexOf xs a) = a"
proof (induction xs)
  case Nil
  then show ?case by simp
next
  case (Cons b bs)
  show ?case
  proof (cases "b = a")
    case True
    then show ?thesis by simp
  next
    case False
    with Cons.prems have mem: "a \<in> set bs" by simp
    then have ne: "indexOf bs a \<noteq> - 1" by (simp add: indexOf_absent_iff)
    from Cons.IH [OF mem] have ih: "0 \<le> indexOf bs a" "indexOf bs a < int (length bs)"
      "bs ! nat (indexOf bs a) = a" by simp_all
    have "nat (indexOf bs a + 1) = Suc (nat (indexOf bs a))" using ih(1) by simp
    with False ne ih show ?thesis by (simp add: Let_def)
  qed
qed

lemma indexOf_nth_distinct:
  "distinct xs \<Longrightarrow> i < length xs \<Longrightarrow> indexOf xs (xs ! i) = int i"
proof (induction xs arbitrary: i)
  case Nil
  then show ?case by simp
next
  case (Cons b bs)
  show ?case
  proof (cases i)
    case 0
    then show ?thesis by simp
  next
    case (Suc j)
    with Cons.prems have j: "j < length bs" and d: "distinct bs" and nb: "b \<notin> set bs"
      by simp_all
    from j nb have "bs ! j \<noteq> b" by (metis nth_mem)
    with Cons.IH [OF d j] Suc show ?thesis by (simp add: Let_def)
  qed
qed

text \<open>
  C6 (as amended). The index of a thought is its first position in the active path (in a
  path without duplicates, its position), and \<open>k\<close> is the cursor \<open>pathProgress\<close>. A thought
  on the path other than the synthesis thought reports \<open>max 0.4 (1 - (k - index) * 0.15)\<close> when
  its index is at most \<open>k\<close> and the foreshadowing value 0.15 when its index is ahead of the
  cursor. The synthesis thought reports 1 once the cursor has reached the last position of
  the path, and 0.3 before. A thought that is not on the path reports 0.
\<close>

theorem path_activation:
  "(tid \<notin> set (activePath s) \<longrightarrow> thinking_getActivation tid s = 0)
   \<and> (tid \<in> set (activePath s) \<longrightarrow>
        0 \<le> indexOf (activePath s) tid
        \<and> indexOf (activePath s) tid < int (length (activePath s))
        \<and> activePath s ! nat (indexOf (activePath s) tid) = tid
        \<and> (Some tid \<noteq> synthesisId s \<longrightarrow>
              (indexOf (activePath s) tid \<le> pathProgress s \<longrightarrow>
                 thinking_getActivation tid s =
                   max (4 / 10)
                     (1 - real_of_int (pathProgress s - indexOf (activePath s) tid) * (15 / 100)))
              \<and> (pathProgress s < indexOf (activePath s) tid \<longrightarrow>
                   thinking_getActivation tid s = 15 / 100))
        \<and> (Some tid = synthesisId s \<longrightarrow>
              (int (length (activePath s)) - 1 \<le> pathProgress s \<longrightarrow>
                 thinking_getActivation tid s = 1)
              \<and> (pathProgress s < int (length (activePath s)) - 1 \<longrightarrow>
                   thinking_getActivation tid s = 3 / 10)))
   \<and> (\<forall>i. distinct (activePath s) \<and> i < length (activePath s) \<longrightarrow>
          indexOf (activePath s) (activePath s ! i) = int i)"
proof (intro conjI impI allI)
  assume "tid \<notin> set (activePath s)"
  then have "indexOf (activePath s) tid = - 1" by (simp add: indexOf_absent_iff)
  then show "thinking_getActivation tid s = 0"
    by (simp add: thinking_getActivation_def)
next
  fix i assume "distinct (activePath s) \<and> i < length (activePath s)"
  then show "indexOf (activePath s) (activePath s ! i) = int i"
    by (simp add: indexOf_nth_distinct)
next
  assume mem: "tid \<in> set (activePath s)"
  from indexOf_present [OF mem]
  show "0 \<le> indexOf (activePath s) tid" "indexOf (activePath s) tid < int (length (activePath s))"
    "activePath s ! nat (indexOf (activePath s) tid) = tid" by simp_all
next
  assume mem: "tid \<in> set (activePath s)" and ns: "Some tid \<noteq> synthesisId s"
    and le: "indexOf (activePath s) tid \<le> pathProgress s"
  from mem have ne: "indexOf (activePath s) tid \<noteq> - 1" "activePath s \<noteq> []"
    by (auto simp add: indexOf_absent_iff)
  with ns le show "thinking_getActivation tid s =
      max (4 / 10) (1 - real_of_int (pathProgress s - indexOf (activePath s) tid) * (15 / 100))"
    by (simp add: thinking_getActivation_def Let_def)
next
  assume mem: "tid \<in> set (activePath s)" and ns: "Some tid \<noteq> synthesisId s"
    and lt: "pathProgress s < indexOf (activePath s) tid"
  from mem have ne: "indexOf (activePath s) tid \<noteq> - 1" "activePath s \<noteq> []"
    by (auto simp add: indexOf_absent_iff)
  with ns lt show "thinking_getActivation tid s = 15 / 100"
    by (simp add: thinking_getActivation_def Let_def)
next
  assume mem: "tid \<in> set (activePath s)" and sy: "Some tid = synthesisId s"
    and le: "int (length (activePath s)) - 1 \<le> pathProgress s"
  from mem have ne: "indexOf (activePath s) tid \<noteq> - 1" "activePath s \<noteq> []"
    by (auto simp add: indexOf_absent_iff)
  with sy le show "thinking_getActivation tid s = 1"
    by (simp add: thinking_getActivation_def Let_def)
next
  assume mem: "tid \<in> set (activePath s)" and sy: "Some tid = synthesisId s"
    and lt: "pathProgress s < int (length (activePath s)) - 1"
  from mem have ne: "indexOf (activePath s) tid \<noteq> - 1" "activePath s \<noteq> []"
    by (auto simp add: indexOf_absent_iff)
  with sy lt show "thinking_getActivation tid s = 3 / 10"
    by (simp add: thinking_getActivation_def Let_def)
qed

theorem path_activation_witness:
  "''t1'' \<in> set (activePath \<lparr>activePath = [''t1'', ''t2'', ''t3'', ''t9''], pathProgress = 1,
       isThinking = True, synthesisId = Some ''t9'', thinkingStartTime = Some 0,
       traversalSpeed = 2\<rparr>)
   \<and> thinking_getActivation ''t1'' \<lparr>activePath = [''t1'', ''t2'', ''t3'', ''t9''],
       pathProgress = 1, isThinking = True, synthesisId = Some ''t9'',
       thinkingStartTime = Some 0, traversalSpeed = 2\<rparr> = 85 / 100
   \<and> thinking_getActivation ''t3'' \<lparr>activePath = [''t1'', ''t2'', ''t3'', ''t9''],
       pathProgress = 1, isThinking = True, synthesisId = Some ''t9'',
       thinkingStartTime = Some 0, traversalSpeed = 2\<rparr> = 15 / 100
   \<and> thinking_getActivation ''t9'' \<lparr>activePath = [''t1'', ''t2'', ''t3'', ''t9''],
       pathProgress = 1, isThinking = True, synthesisId = Some ''t9'',
       thinkingStartTime = Some 0, traversalSpeed = 2\<rparr> = 3 / 10
   \<and> thinking_getActivation ''t9'' \<lparr>activePath = [''t1'', ''t2'', ''t3'', ''t9''],
       pathProgress = 3, isThinking = True, synthesisId = Some ''t9'',
       thinkingStartTime = Some 0, traversalSpeed = 2\<rparr> = 1
   \<and> thinking_getActivation ''t5'' \<lparr>activePath = [''t1'', ''t2'', ''t3'', ''t9''],
       pathProgress = 1, isThinking = True, synthesisId = Some ''t9'',
       thinkingStartTime = Some 0, traversalSpeed = 2\<rparr> = 0"
proof -
  let ?S = "\<lambda>k. \<lparr>activePath = [''t1'', ''t2'', ''t3'', ''t9''], pathProgress = k,
       isThinking = True, synthesisId = Some ''t9'', thinkingStartTime = Some 0,
       traversalSpeed = 2\<rparr>"
  from path_activation [of "''t1''" "?S 1"]
  have a: "thinking_getActivation ''t1'' (?S 1) = 85 / 100" by simp
  from path_activation [of "''t3''" "?S 1"]
  have b: "thinking_getActivation ''t3'' (?S 1) = 15 / 100" by simp
  from path_activation [of "''t9''" "?S 1"]
  have c: "thinking_getActivation ''t9'' (?S 1) = 3 / 10" by simp
  from path_activation [of "''t9''" "?S 3"]
  have d: "thinking_getActivation ''t9'' (?S 3) = 1" by simp
  from path_activation [of "''t5''" "?S 1"]
  have e: "thinking_getActivation ''t5'' (?S 1) = 0" by simp
  from a b c d e show ?thesis by simp
qed

text \<open>
  The claim as stated gives 0.15 to every thought ahead of the cursor. The synthesis
  thought, the last of the path, is ahead of the cursor until the end and reports 0.3.
\<close>

theorem path_activation_synthesis_counterexample:
  "\<not> (pathProgress (startThinking 0 [''t1'', ''t2'', ''t9''] (Some ''t9'') initialThinkingState)
         < indexOf (activePath (startThinking 0 [''t1'', ''t2'', ''t9''] (Some ''t9'')
                                  initialThinkingState)) ''t9''
       \<longrightarrow> thinking_getActivation ''t9''
             (startThinking 0 [''t1'', ''t2'', ''t9''] (Some ''t9'') initialThinkingState)
           = 15 / 100)"
  by (simp add: startThinking_def initialThinkingState_def thinking_getActivation_def Let_def)

section \<open>Properties of the scene\<close>

lemma renderConnection_Some:
  assumes "renderConnection ts c = Some a"
  shows "fromThoughtId a = fromThought c \<and> toThoughtId a = toThought c
       \<and> fromThought c \<in> thought_id ` set ts \<and> toThought c \<in> thought_id ` set ts"
proof -
  from assms obtain f t where
    f: "find (\<lambda>t. thought_id t = fromThought c) ts = Some f" and
    t: "find (\<lambda>t. thought_id t = toThought c) ts = Some t" and
    a: "fromThoughtId a = fromThought c" "toThoughtId a = toThought c"
    by (auto simp add: renderConnection_def Let_def split: option.splits)
  from f have "f \<in> set ts" "thought_id f = fromThought c"
    by (auto simp add: find_Some_iff)
  moreover from t have "t \<in> set ts" "thought_id t = toThought c"
    by (auto simp add: find_Some_iff)
  ultimately show ?thesis using a by force
qed

lemma renderConnection_None:
  assumes "fromThought c \<notin> thought_id ` set ts \<or> toThought c \<notin> thought_id ` set ts"
  shows "renderConnection ts c = None"
proof -
  have absent: "find (\<lambda>t. thought_id t = i) ts = None" if "i \<notin> thought_id ` set ts" for i
    using that by (auto simp add: find_None_iff)
  from assms show ?thesis
  proof
    assume "fromThought c \<notin> thought_id ` set ts"
    then have "find (\<lambda>t. thought_id t = fromThought c) ts = None" by (rule absent)
    then show ?thesis by (simp add: renderConnection_def)
  next
    assume "toThought c \<notin> thought_id ` set ts"
    then have "find (\<lambda>t. thought_id t = toThought c) ts = None" by (rule absent)
    then show ?thesis by (simp add: renderConnection_def split: option.splits)
  qed
qed

lemma map_filter_id_map: "List.map_filter (\<lambda>e. e) (map g xs) = List.map_filter g xs"
  by (induction xs) (simp_all split: option.splits)

lemma set_map_filter_iff: "a \<in> set (List.map_filter g xs) \<longleftrightarrow> (\<exists>x \<in> set xs. g x = Some a)"
  by (induction xs) (auto split: option.splits)

lemma visibleConnections_subset: "set (visibleConnections tline ts cs) \<subseteq> set cs"
proof (cases "isActive tline")
  case True
  have "set (filter P cs) \<subseteq> set cs" for P :: "Connection \<Rightarrow> bool"
    by (rule filter_is_subset)
  then show ?thesis
    unfolding visibleConnections_def by (simp only: True not_True_eq_False if_False)
next
  case False
  then show ?thesis
    unfolding visibleConnections_def by (simp only: not_False_eq_True if_True subset_refl)
qed

lemma visibleConnections_inactive:
  "\<not> isActive tline \<Longrightarrow> visibleConnections tline ts cs = cs"
  unfolding visibleConnections_def by (simp only: not_False_eq_True if_True)

lemma renderedAxons_origin:
  assumes "a \<in> set (renderedAxons tline ts cs)"
  shows "\<exists>c \<in> set cs. renderConnection ts c = Some a"
proof -
  from assms obtain c where "c \<in> set (visibleConnections tline ts cs)"
    and "renderConnection ts c = Some a"
    by (auto simp add: renderedAxons_def axonElements_def map_filter_id_map set_map_filter_iff)
  with visibleConnections_subset show ?thesis by blast
qed

lemma renderedAxons_endpoints:
  assumes "a \<in> set (renderedAxons tline ts cs)"
  shows "fromThoughtId a \<in> thought_id ` set ts \<and> toThoughtId a \<in> thought_id ` set ts
       \<and> (\<exists>c \<in> set cs. fromThought c = fromThoughtId a \<and> toThought c = toThoughtId a
             \<and> connection_id c = connectionId a)"
proof -
  from renderedAxons_origin [OF assms] obtain c where c: "c \<in> set cs"
    and r: "renderConnection ts c = Some a" by blast
  from r have k: "connection_id c = connectionId a"
    by (auto simp add: renderConnection_def Let_def split: option.splits)
  from renderConnection_Some [OF r] have e: "fromThoughtId a = fromThought c"
    "toThoughtId a = toThought c" "fromThought c \<in> thought_id ` set ts"
    "toThought c \<in> thought_id ` set ts" by simp_all
  from e have "fromThoughtId a \<in> thought_id ` set ts" "toThoughtId a \<in> thought_id ` set ts"
    by simp_all
  moreover from c k e have "\<exists>c \<in> set cs. fromThought c = fromThoughtId a
      \<and> toThought c = toThoughtId a \<and> connection_id c = connectionId a"
    by (intro bexI [of _ c]) simp_all
  ultimately show ?thesis by simp
qed

lemma dangling_not_rendered:
  assumes "fromThought c \<notin> thought_id ` set ts \<or> toThought c \<notin> thought_id ` set ts"
  shows "\<not> (\<exists>a \<in> set (renderedAxons tline ts cs).
              fromThoughtId a = fromThought c \<and> toThoughtId a = toThought c)"
proof
  assume "\<exists>a \<in> set (renderedAxons tline ts cs).
              fromThoughtId a = fromThought c \<and> toThoughtId a = toThought c"
  then obtain a where a: "a \<in> set (renderedAxons tline ts cs)"
    and eq: "fromThoughtId a = fromThought c" "toThoughtId a = toThought c" by blast
  from renderedAxons_endpoints [OF a] eq
  have "fromThought c \<in> thought_id ` set ts" "toThought c \<in> thought_id ` set ts"
    by simp_all
  with assms show False by simp
qed

text \<open>
  C5. Every connection the scene draws has both its endpoints among the loaded thoughts,
  and is the drawing of a loaded connection; this holds for every snapshot, in particular
  for the one a windowed load (\<open>loadNearCamera\<close>) leaves in the store. A connection with a
  missing endpoint yields the \<open>null\<close> element and nothing drawn stems from it; the scene's
  functions have no failing branch. Outside timeline mode, what is drawn is exactly the
  loaded connections with both endpoints present.
\<close>

theorem rendered_endpoints_exist:
  "(\<forall>a \<in> set (renderedAxons tline ts cs).
       fromThoughtId a \<in> thought_id ` set ts \<and> toThoughtId a \<in> thought_id ` set ts
       \<and> (\<exists>c \<in> set cs. fromThought c = fromThoughtId a \<and> toThought c = toThoughtId a
             \<and> connection_id c = connectionId a))
   \<and> (\<forall>c. fromThought c \<notin> thought_id ` set ts \<or> toThought c \<notin> thought_id ` set ts \<longrightarrow>
          renderConnection ts c = None
          \<and> \<not> (\<exists>a \<in> set (renderedAxons tline ts cs).
                  fromThoughtId a = fromThought c \<and> toThoughtId a = toThought c))
   \<and> (\<forall>s'. loadNearCamera tauri be cx cy cz radius limit s = Some s' \<longrightarrow>
         (\<forall>a \<in> set (renderedAxons tline (thoughts s') (connections s')).
            fromThoughtId a \<in> thought_id ` set (thoughts s')
            \<and> toThoughtId a \<in> thought_id ` set (thoughts s')))
   \<and> (\<not> isActive tline \<longrightarrow>
         renderedAxons tline ts cs = List.map_filter (renderConnection ts) cs)"
proof (intro conjI allI impI ballI)
  fix a assume "a \<in> set (renderedAxons tline ts cs)"
  from renderedAxons_endpoints [OF this]
  show "fromThoughtId a \<in> thought_id ` set ts" "toThoughtId a \<in> thought_id ` set ts"
    "\<exists>c \<in> set cs. fromThought c = fromThoughtId a \<and> toThought c = toThoughtId a
             \<and> connection_id c = connectionId a"
    by simp_all
next
  fix c :: Connection assume d: "fromThought c \<notin> thought_id ` set ts \<or> toThought c \<notin> thought_id ` set ts"
  show "renderConnection ts c = None" by (rule renderConnection_None [OF d])
  show "\<not> (\<exists>a \<in> set (renderedAxons tline ts cs).
                  fromThoughtId a = fromThought c \<and> toThoughtId a = toThought c)"
    by (rule dangling_not_rendered [OF d])
next
  fix s' a assume "a \<in> set (renderedAxons tline (thoughts s') (connections s'))"
  from renderedAxons_endpoints [OF this]
  show "fromThoughtId a \<in> thought_id ` set (thoughts s')"
    "toThoughtId a \<in> thought_id ` set (thoughts s')" by simp_all
next
  assume "\<not> isActive tline"
  then show "renderedAxons tline ts cs = List.map_filter (renderConnection ts) cs"
    by (simp add: renderedAxons_def axonElements_def visibleConnections_inactive map_filter_id_map)
qed

theorem rendered_endpoints_exist_witness:
  "loadNearCamera True
     ((exampleBackend 0 0)\<lparr>get_thoughts_near := (\<lambda>cx cy cz radius limit.
                                 Some (take 2 (demoThoughts 0))),
                             get_connections_for_thoughts := (\<lambda>ids. Some (demoConnections 0))\<rparr>)
     0 0 50 80 300 initialMindState
     = Some (initialMindState\<lparr>thoughts := take 2 (demoThoughts 0),
                               connections := demoConnections 0\<rparr>)
   \<and> renderedAxons (initialTimelineState 0) (take 2 (demoThoughts 0)) (demoConnections 0)
       = [\<lparr>axon_key = ''c1'', connectionId = ''c1'', axon_start = (0, 0, 0),
           axon_end = (10, 5, - 5), startCategory = Creative, endCategory = Technical,
           fromThoughtId = ''1'', toThoughtId = ''2'', axon_strength = 8 / 10\<rparr>]
   \<and> ''1'' \<in> thought_id ` set (take 2 (demoThoughts 0))
   \<and> ''2'' \<in> thought_id ` set (take 2 (demoThoughts 0))
   \<and> ''3'' \<notin> thought_id ` set (take 2 (demoThoughts 0))
   \<and> renderConnection (take 2 (demoThoughts 0))
        \<lparr>connection_id = ''c2'', fromThought = ''1'', toThought = ''3'', strength = 7 / 10,
         reason = ''Visualization layer'', connection_createdAt = 0\<rparr> = None"
proof -
  let ?ts = "take 2 (demoThoughts 0)"
  let ?c2 = "\<lparr>connection_id = ''c2'', fromThought = ''1'', toThought = ''3'',
              strength = 7 / 10, reason = ''Visualization layer'', connection_createdAt = 0\<rparr>"
  let ?a = "\<lparr>axon_key = ''c1'', connectionId = ''c1'', axon_start = (0, 0, 0),
     axon_end = (10, 5, - 5), startCategory = Creative, endCategory = Technical,
     fromThoughtId = ''1'', toThoughtId = ''2'', axon_strength = 8 / 10\<rparr>"
  have load: "loadNearCamera True
     ((exampleBackend 0 0)\<lparr>get_thoughts_near := (\<lambda>cx cy cz radius limit.
                                 Some (take 2 (demoThoughts 0))),
                             get_connections_for_thoughts := (\<lambda>ids. Some (demoConnections 0))\<rparr>)
     0 0 50 80 300 initialMindState
     = Some (initialMindState\<lparr>thoughts := ?ts, connections := demoConnections 0\<rparr>)"
    by (simp add: loadNearCamera_def exampleBackend_def demoThoughts_def Let_def)
  have inactive: "\<not> isActive (initialTimelineState 0)"
    by (simp add: initialTimelineState_def)
  note th = rendered_endpoints_exist [of "initialTimelineState 0" ?ts "demoConnections 0"]
  from th inactive
  have eq: "renderedAxons (initialTimelineState 0) ?ts (demoConnections 0)
            = List.map_filter (renderConnection ?ts) (demoConnections 0)"
    by blast
  have drawn: "renderedAxons (initialTimelineState 0) ?ts (demoConnections 0) = [?a]"
    unfolding eq by (simp add: renderConnection_def demoThoughts_def demoConnections_def)
  then have mem: "?a \<in> set (renderedAxons (initialTimelineState 0) ?ts (demoConnections 0))"
    by simp
  from th mem have ends: "fromThoughtId ?a \<in> thought_id ` set ?ts
      \<and> toThoughtId ?a \<in> thought_id ` set ?ts"
    by blast
  have miss: "''3'' \<notin> thought_id ` set ?ts"
    by (simp add: demoThoughts_def)
  from th miss have none: "renderConnection ?ts ?c2 = None"
    by simp
  from load drawn ends miss none show ?thesis by simp
qed

section \<open>Properties of the mind store\<close>

lemma path_loop_length:
  "length (path_loop new ts conns path) \<le> length path + length conns"
proof (induction conns arbitrary: path)
  case Nil
  then show ?case by simp
next
  case (Cons c conns)
  show ?case using Cons.IH [of "path @ [connectedId new c]"] Cons.IH [of path]
    by (simp add: Let_def)
qed

lemma path_loop_distinct:
  "distinct path \<Longrightarrow> distinct (path_loop new ts conns path)"
proof (induction conns arbitrary: path)
  case Nil
  then show ?case by simp
next
  case (Cons c conns)
  then show ?case by (simp add: Let_def)
qed

lemma path_loop_all_pushed:
  assumes "distinct (path @ map (connectedId new) conns)"
    and "\<forall>c \<in> set conns. connectedId new c \<in> thought_id ` set ts"
  shows "path_loop new ts conns path = path @ map (connectedId new) conns"
  using assms
proof (induction conns arbitrary: path)
  case Nil
  then show ?case by simp
next
  case (Cons c conns)
  from Cons.prems(2) have "connectedId new c \<in> thought_id ` set ts" by simp
  then have found: "find (\<lambda>t. thought_id t = connectedId new c) ts \<noteq> None"
    by (auto simp add: find_None_iff)
  from Cons.prems(1) have fresh: "connectedId new c \<notin> set path" by auto
  from Cons.prems(1) have d: "distinct ((path @ [connectedId new c]) @ map (connectedId new) conns)"
    by auto
  from Cons.prems(2) have e: "\<forall>c \<in> set conns. connectedId new c \<in> thought_id ` set ts" by simp
  from Cons.IH [OF d e] found fresh show ?case by (simp add: Let_def)
qed

lemma distinct_map_insort_key:
  "distinct (map g (insort_key f x xs)) \<longleftrightarrow> g x \<notin> g ` set xs \<and> distinct (map g xs)"
  by (induction xs) (auto simp add: set_insort_key)

lemma distinct_map_sort_key:
  "distinct (map g (sort_key f xs)) \<longleftrightarrow> distinct (map g xs)"
  by (induction xs) (simp_all add: distinct_map_insort_key)

lemma sorted_desc_sort_key:
  "sorted_wrt (\<ge>) (map strength (take n (sort_key (\<lambda>c. - strength c) xs)))"
proof -
  have "sorted (map (\<lambda>c. - strength c) (sort_key (\<lambda>c. - strength c) xs))"
    by (rule sorted_sort_key)
  then have "sorted_wrt (\<lambda>a b. - strength a \<le> - strength b) (sort_key (\<lambda>c. - strength c) xs)"
    by (simp add: sorted_wrt_map)
  then have "sorted_wrt (\<lambda>a b. strength a \<ge> strength b) (sort_key (\<lambda>c. - strength c) xs)"
    by simp
  then have "sorted_wrt (\<lambda>a b. strength a \<ge> strength b)
               (take n (sort_key (\<lambda>c. - strength c) xs))"
    by (rule sorted_wrt_take)
  then show ?thesis by (simp add: sorted_wrt_map)
qed

lemma take_min_length: "length ys = m \<Longrightarrow> take (min m n) ys = take n ys"
  by (cases "m \<le> n") (simp_all add: min_def)

lemma findReasoningPath_unfold:
  "findReasoningPath new ts cs =
     path_loop new ts
       (take (maxPathLength - 1)
          (sort_key (\<lambda>c. - strength c)
             (filter (\<lambda>c. toThought c = new \<or> fromThought c = new) cs))) []
     @ [new]"
  by (simp add: findReasoningPath_def Let_def take_min_length)

text \<open>
  C4 (as amended). The derived path always ends with the id of the new thought, has at
  most \<open>maxPathLength = 4\<close> entries, and has no duplicates before its last entry. When the
  connections that touch the new thought lead to \<open>connectedCount\<close> different existing
  thoughts other than the new one, one connection each, the path is the ids of the (at
  most \<open>maxPathLength - 1\<close>) strongest of them followed by the new id: its length is
  \<open>min connectedCount (maxPathLength - 1) + 1\<close> and it has no duplicates. The connections
  visited are in descending order of strength. In the scenario the path is
  \<open>[t1, t2, t9]\<close>, and \<open>addThought\<close> starts the traversal of it with synthesis id \<open>t9\<close>.
\<close>

theorem reasoning_path_shape:
  "last (findReasoningPath new ts cs) = new
   \<and> length (findReasoningPath new ts cs) \<le> maxPathLength
   \<and> distinct (butlast (findReasoningPath new ts cs))
   \<and> (distinct (map (connectedId new)
                  (filter (\<lambda>c. toThought c = new \<or> fromThought c = new) cs))
        \<and> (\<forall>c \<in> set (filter (\<lambda>c. toThought c = new \<or> fromThought c = new) cs).
               connectedId new c \<in> thought_id ` set ts \<and> connectedId new c \<noteq> new)
        \<longrightarrow>
          findReasoningPath new ts cs =
            map (connectedId new)
              (take (maxPathLength - 1)
                 (sort_key (\<lambda>c. - strength c)
                    (filter (\<lambda>c. toThought c = new \<or> fromThought c = new) cs)))
            @ [new]
          \<and> length (findReasoningPath new ts cs) =
                min (length (filter (\<lambda>c. toThought c = new \<or> fromThought c = new) cs))
                    (maxPathLength - 1) + 1
          \<and> distinct (findReasoningPath new ts cs))
   \<and> sorted_wrt (\<ge>)
         (map strength
            (take (maxPathLength - 1)
               (sort_key (\<lambda>c. - strength c)
                  (filter (\<lambda>c. toThought c = new \<or> fromThought c = new) cs))))
   \<and> findReasoningPath ''t9'' scenarioThoughts scenarioConnections = [''t1'', ''t2'', ''t9'']
   \<and> activePath (thinking (addThought now scenarioNewThought scenarioStores))
        = [''t1'', ''t2'', ''t9'']
   \<and> synthesisId (thinking (addThought now scenarioNewThought scenarioStores)) = Some ''t9''"
proof -
  let ?conns = "filter (\<lambda>c. toThought c = new \<or> fromThought c = new) cs"
  let ?visited = "take (maxPathLength - 1) (sort_key (\<lambda>c. - strength c) ?conns)"
  have unf: "findReasoningPath new ts cs = path_loop new ts ?visited [] @ [new]"
    by (rule findReasoningPath_unfold)
  have p1: "last (findReasoningPath new ts cs) = new" by (simp add: unf)
  have "length (path_loop new ts ?visited []) \<le> length ?visited"
    using path_loop_length [of new ts ?visited "[]"] by simp
  also have "\<dots> \<le> maxPathLength - 1" by simp
  finally have p2: "length (findReasoningPath new ts cs) \<le> maxPathLength"
    by (simp add: unf maxPathLength_def)
  have p3: "distinct (butlast (findReasoningPath new ts cs))"
    by (simp add: unf path_loop_distinct)
  have p4: "findReasoningPath new ts cs = map (connectedId new) ?visited @ [new]
          \<and> length (findReasoningPath new ts cs) = min (length ?conns) (maxPathLength - 1) + 1
          \<and> distinct (findReasoningPath new ts cs)"
    if d: "distinct (map (connectedId new) ?conns)"
      and e: "\<forall>c \<in> set ?conns. connectedId new c \<in> thought_id ` set ts \<and> connectedId new c \<noteq> new"
  proof -
    from d have "distinct (map (connectedId new) (sort_key (\<lambda>c. - strength c) ?conns))"
      by (simp only: distinct_map_sort_key)
    then have dv: "distinct (map (connectedId new) ?visited)"
      by (simp only: take_map [symmetric] distinct_take)
    have sub: "set ?visited \<subseteq> set ?conns"
      using set_take_subset [of "maxPathLength - 1" "sort_key (\<lambda>c. - strength c) ?conns"]
      by (simp only: set_sort)
    with e have ev: "\<forall>c \<in> set ?visited. connectedId new c \<in> thought_id ` set ts"
      and nv: "\<forall>c \<in> set ?visited. connectedId new c \<noteq> new"
      by blast+
    from dv have dv': "distinct ([] @ map (connectedId new) ?visited)" by simp
    have eq: "findReasoningPath new ts cs = map (connectedId new) ?visited @ [new]"
      unfolding unf path_loop_all_pushed [OF dv' ev] by simp
    have len: "length (findReasoningPath new ts cs)
                 = min (length ?conns) (maxPathLength - 1) + 1"
      unfolding eq by (simp add: min.commute)
    from nv have "new \<notin> set (map (connectedId new) ?visited)" by auto
    with dv have dis: "distinct (findReasoningPath new ts cs)"
      unfolding eq by simp
    from eq len dis show ?thesis by simp
  qed
  have p5: "sorted_wrt (\<ge>) (map strength ?visited)" by (rule sorted_desc_sort_key)
  have p6: "findReasoningPath ''t9'' scenarioThoughts scenarioConnections
              = [''t1'', ''t2'', ''t9'']"
    by (simp add: findReasoningPath_unfold scenarioThoughts_def scenarioConnections_def
          maxPathLength_def connectedId_def Let_def)
  have p7: "activePath (thinking (addThought now scenarioNewThought scenarioStores))
              = [''t1'', ''t2'', ''t9'']"
    "synthesisId (thinking (addThought now scenarioNewThought scenarioStores)) = Some ''t9''"
    by (simp_all add: addThought_def scenarioStores_def scenarioNewThought_def
          initialMindState_def p6 startThinking_def Let_def)
  from p1 p2 p3 p4 p5 p6 p7 show ?thesis by blast
qed

theorem reasoning_path_shape_witness:
  "distinct (map (connectedId ''t9'')
      (filter (\<lambda>c. toThought c = ''t9'' \<or> fromThought c = ''t9'') scenarioConnections))
   \<and> map (connectedId ''t9'')
        (filter (\<lambda>c. toThought c = ''t9'' \<or> fromThought c = ''t9'') scenarioConnections)
       = [''t2'', ''t1'']
   \<and> ''t1'' \<in> thought_id ` set scenarioThoughts \<and> ''t2'' \<in> thought_id ` set scenarioThoughts
   \<and> length (findReasoningPath ''t9'' scenarioThoughts scenarioConnections) = 3
   \<and> distinct (findReasoningPath ''t9'' scenarioThoughts scenarioConnections)"
proof -
  have h: "distinct (map (connectedId ''t9'')
      (filter (\<lambda>c. toThought c = ''t9'' \<or> fromThought c = ''t9'') scenarioConnections))
   \<and> (\<forall>c \<in> set (filter (\<lambda>c. toThought c = ''t9'' \<or> fromThought c = ''t9'')
                     scenarioConnections).
         connectedId ''t9'' c \<in> thought_id ` set scenarioThoughts
         \<and> connectedId ''t9'' c \<noteq> ''t9'')"
    by (simp add: scenarioConnections_def scenarioThoughts_def connectedId_def)
  have n: "length (filter (\<lambda>c. toThought c = ''t9'' \<or> fromThought c = ''t9'')
                     scenarioConnections) = 2"
    by (simp add: scenarioConnections_def)
  from reasoning_path_shape [of "''t9''" scenarioThoughts scenarioConnections] h
  have "length (findReasoningPath ''t9'' scenarioThoughts scenarioConnections)
          = min (length (filter (\<lambda>c. toThought c = ''t9'' \<or> fromThought c = ''t9'')
                           scenarioConnections)) (maxPathLength - 1) + 1"
    and d: "distinct (findReasoningPath ''t9'' scenarioThoughts scenarioConnections)"
    by blast+
  then have l: "length (findReasoningPath ''t9'' scenarioThoughts scenarioConnections) = 3"
    by (simp add: n maxPathLength_def)
  have ids: "map (connectedId ''t9'')
        (filter (\<lambda>c. toThought c = ''t9'' \<or> fromThought c = ''t9'') scenarioConnections)
       = [''t2'', ''t1'']"
    "''t1'' \<in> thought_id ` set scenarioThoughts" "''t2'' \<in> thought_id ` set scenarioThoughts"
    by (simp_all add: scenarioConnections_def scenarioThoughts_def connectedId_def)
  from h have "distinct (map (connectedId ''t9'')
      (filter (\<lambda>c. toThought c = ''t9'' \<or> fromThought c = ''t9'') scenarioConnections))"
    by blast
  with ids l d show ?thesis by blast
qed

text \<open>
  The claim as stated gives the path the length \<open>min connectedCount maxPathLength\<close>. The
  scenario's path \<open>[t1, t2, t9]\<close> has three entries for two connected thoughts: the new
  thought is counted as well.
\<close>

theorem reasoning_path_length_counterexample:
  "\<not> (length (findReasoningPath ''t9'' scenarioThoughts scenarioConnections)
        = min (length (filter (\<lambda>c. toThought c = ''t9'' \<or> fromThought c = ''t9'')
                         scenarioConnections))
              maxPathLength)"
  by (simp add: findReasoningPath_unfold scenarioThoughts_def scenarioConnections_def
        maxPathLength_def connectedId_def Let_def)


lemma loadFromDatabase_spatial:
  assumes "get_thought_count be = Some n" and "500 < n"
  shows "loadFromDatabase True t0 be s = s\<lparr>useSpatialLoading := True, totalThoughtCount := n\<rparr>"
  using assms
  by (simp add: loadFromDatabase_def shouldUseSpatial_def SPATIAL_THRESHOLD_def)

lemma loadFromDatabase_full:
  assumes "get_thought_count be = Some n" and "n \<le> 500"
    and "get_all_thoughts be = Some ts" and "get_all_connections be = Some cs"
  shows "loadFromDatabase True t0 be s =
           (let s1 = s\<lparr>thoughts := ts, connections := cs,
                       clusters := (case get_all_clusters be of Some c \<Rightarrow> c | None \<Rightarrow> []),
                       useSpatialLoading := False, totalThoughtCount := n\<rparr>
            in if ts = [] then setDemoData t0 s1 else s1)"
  using assms
  by (simp add: loadFromDatabase_def shouldUseSpatial_def SPATIAL_THRESHOLD_def Let_def)

lemma loadNearCamera_storeBackend:
  "loadNearCamera True (storeBackend v sts scs cls) cx cy cz radius limit s =
     Some (s\<lparr>thoughts := take limit (filter (within_radius (cx, cy, cz) radius) sts),
             connections :=
               (if take limit (filter (within_radius (cx, cy, cz) radius) sts) = [] then []
                else filter (\<lambda>c. fromThought c
                                  \<in> thought_id ` set (take limit
                                        (filter (within_radius (cx, cy, cz) radius) sts))
                                \<and> toThought c
                                  \<in> thought_id ` set (take limit
                                        (filter (within_radius (cx, cy, cz) radius) sts)))
                       scs)\<rparr>)"
  by (simp add: loadNearCamera_def storeBackend_def Let_def)

text \<open>
  C2. \<open>loadFromDatabase\<close> with a total count \<open>n\<close>: above the threshold 500 it switches the
  store to spatial loading and fetches nothing; up to 500 it fetches the whole graph (and
  seeds the demo data when the graph is empty). A windowed load that leaves out radius and
  limit queries the backing store with radius 80 and limit 300, and against the backing
  store of the specification, which cuts the answer at the limit, the snapshot it leaves
  has at most 300 thoughts.
\<close>

theorem load_decision:
  "(get_thought_count be = Some n \<longrightarrow>
      (500 < n \<longrightarrow>
         shouldUseSpatial n
         \<and> loadFromDatabase True t0 be s
             = s\<lparr>useSpatialLoading := True, totalThoughtCount := n\<rparr>)
      \<and> (n \<le> 500 \<longrightarrow>
           \<not> shouldUseSpatial n
           \<and> (\<forall>ts cs. get_all_thoughts be = Some ts \<and> get_all_connections be = Some cs \<longrightarrow>
                 \<not> useSpatialLoading (loadFromDatabase True t0 be s)
                 \<and> totalThoughtCount (loadFromDatabase True t0 be s) = n
                 \<and> thoughts (loadFromDatabase True t0 be s)
                     = (if ts = [] then demoThoughts t0 else ts)
                 \<and> connections (loadFromDatabase True t0 be s)
                     = (if ts = [] then demoConnections t0 else cs))))
   \<and> (\<exists>s'. loadNearCamera_default True (storeBackend v sts scs cls) cx cy cz s = Some s'
          \<and> loadNearCamera True (storeBackend v sts scs cls) cx cy cz 80 300 s = Some s'
          \<and> thoughts s' = take 300 (filter (within_radius (cx, cy, cz) 80) sts)
          \<and> length (thoughts s') \<le> 300)
   \<and> get_thought_count (storeBackend v sts scs cls) = Some (int (length sts))"
proof (intro conjI impI allI)
  assume n: "get_thought_count be = Some n" and big: "500 < n"
  from big show "shouldUseSpatial n"
    by (simp add: shouldUseSpatial_def SPATIAL_THRESHOLD_def)
  show "loadFromDatabase True t0 be s = s\<lparr>useSpatialLoading := True, totalThoughtCount := n\<rparr>"
    by (rule loadFromDatabase_spatial [OF n big])
next
  assume n: "get_thought_count be = Some n" and small: "n \<le> 500"
  from small show "\<not> shouldUseSpatial n"
    by (simp add: shouldUseSpatial_def SPATIAL_THRESHOLD_def)
next
  fix ts cs
  assume n: "get_thought_count be = Some n" and small: "n \<le> 500"
    and all: "get_all_thoughts be = Some ts \<and> get_all_connections be = Some cs"
  from all have t: "get_all_thoughts be = Some ts" and c: "get_all_connections be = Some cs"
    by simp_all
  note full = loadFromDatabase_full [OF n small t c, of t0 s]
  show "\<not> useSpatialLoading (loadFromDatabase True t0 be s)"
    unfolding full by (simp add: Let_def setDemoData_def)
  show "totalThoughtCount (loadFromDatabase True t0 be s) = n"
    unfolding full by (simp add: Let_def setDemoData_def)
  show "thoughts (loadFromDatabase True t0 be s) = (if ts = [] then demoThoughts t0 else ts)"
    unfolding full by (simp add: Let_def setDemoData_def)
  show "connections (loadFromDatabase True t0 be s)
          = (if ts = [] then demoConnections t0 else cs)"
    unfolding full by (simp add: Let_def setDemoData_def)
next
  show "\<exists>s'. loadNearCamera_default True (storeBackend v sts scs cls) cx cy cz s = Some s'
          \<and> loadNearCamera True (storeBackend v sts scs cls) cx cy cz 80 300 s = Some s'
          \<and> thoughts s' = take 300 (filter (within_radius (cx, cy, cz) 80) sts)
          \<and> length (thoughts s') \<le> 300"
    unfolding loadNearCamera_default_def DEFAULT_SPATIAL_RADIUS_def DEFAULT_SPATIAL_LIMIT_def
      loadNearCamera_storeBackend
    by simp
next
  show "get_thought_count (storeBackend v sts scs cls) = Some (int (length sts))"
    by (simp add: storeBackend_def)
qed

theorem load_decision_witness:
  "get_thought_count (storeBackend \<lparr>thought_max_id = 600, connection_max_id = 0\<rparr>
                        (manyThoughts 600) [] []) = Some 600
   \<and> (500 :: int) < 600
   \<and> loadFromDatabase True 0
        (storeBackend \<lparr>thought_max_id = 600, connection_max_id = 0\<rparr> (manyThoughts 600) [] [])
        initialMindState
      = initialMindState\<lparr>useSpatialLoading := True, totalThoughtCount := 600\<rparr>
   \<and> (\<exists>s'. loadNearCamera_default True
        (storeBackend \<lparr>thought_max_id = 600, connection_max_id = 0\<rparr> (manyThoughts 600) [] [])
        0 0 50 initialMindState = Some s' \<and> length (thoughts s') = 300)
   \<and> get_thought_count (exampleBackend 0 0) = Some 0 \<and> (0 :: int) \<le> 500
   \<and> get_all_thoughts (exampleBackend 0 0) = Some []
   \<and> get_all_connections (exampleBackend 0 0) = Some []
   \<and> thoughts (loadFromDatabase True 0 (exampleBackend 0 0) initialMindState) = demoThoughts 0"
proof -
  let ?be = "storeBackend \<lparr>thought_max_id = 600, connection_max_id = 0\<rparr>
               (manyThoughts 600) [] []"
  have len: "int (length (manyThoughts 600)) = 600" by (simp add: manyThoughts_def)
  note th = load_decision [of ?be 600 0 initialMindState
      "\<lparr>thought_max_id = 600, connection_max_id = 0\<rparr>" "manyThoughts 600" "[]" "[]" 0 0 50]
  from th len have n: "get_thought_count ?be = Some 600" by simp
  from th n have a: "loadFromDatabase True 0 ?be initialMindState
      = initialMindState\<lparr>useSpatialLoading := True, totalThoughtCount := 600\<rparr>"
    by simp
  have near: "within_radius (0, 0, 50) 80 t" if "t \<in> set (manyThoughts 600)" for t
  proof -
    from that obtain i where i: "i < 600"
      and t: "position t = (real i / 10, 0, 0)"
      by (auto simp add: manyThoughts_def)
    from i have "real i / 10 \<le> 60" by simp
    then have "(real i / 10) ^ 2 \<le> 60 ^ 2" by (intro power_mono) simp_all
    then show ?thesis by (simp add: within_radius_def t)
  qed
  then have all: "filter (within_radius (0, 0, 50) 80) (manyThoughts 600) = manyThoughts 600"
    by (simp add: filter_id_conv)
  from th obtain s' where s': "loadNearCamera_default True ?be 0 0 50 initialMindState = Some s'"
    and t': "thoughts s' = take 300 (filter (within_radius (0, 0, 50) 80) (manyThoughts 600))"
    by blast
  from t' have "length (thoughts s') = 300"
    unfolding all by (simp add: manyThoughts_def)
  with s' have b: "\<exists>s'. loadNearCamera_default True ?be 0 0 50 initialMindState = Some s'
                     \<and> length (thoughts s') = 300"
    by blast
  have e: "get_thought_count (exampleBackend 0 0) = Some 0"
    "get_all_thoughts (exampleBackend 0 0) = Some []"
    "get_all_connections (exampleBackend 0 0) = Some []"
    by (simp_all add: exampleBackend_def)
  from load_decision [of "exampleBackend 0 0" 0 0 initialMindState] e
  have c: "thoughts (loadFromDatabase True 0 (exampleBackend 0 0) initialMindState)
             = demoThoughts 0"
    by simp
  from n a b e c show ?thesis by simp
qed


section \<open>Properties of the polling hook\<close>



lemma checkForUpdates_version_query_fails:
  assumes "get_db_version be = None"
  shows "snd (checkForUpdates True t0 be st) = [CallLoadFromDatabase]"
  using assms by (simp add: checkForUpdates_def)





end
